theory Spec2Isabelle
  imports Main
begin

section \<open>JavaScript values\<close>

text \<open>
  Values that arrive in event payloads or come back from the record store. Only
  primitive values are covered. A number is an integer of magnitude below \<open>2 ^ 53\<close>
  (these are exact as JS numbers and are printed without an exponent); a string is a
  sequence of UTF-16 code units, of which the model has those below 256, one
  \<open>char\<close> each. On primitives the strict equality \<^verbatim>\<open>===\<close> and the key equality
  of a JS \<^verbatim>\<open>Map\<close> coincide with HOL equality.
\<close>

datatype jsval = Undefined | Null | Bool bool | Num int | Str string

text \<open>Truthiness, as tested by \<^verbatim>\<open>!x\<close>, \<^verbatim>\<open>x || y\<close> and \<^verbatim>\<open>if (x)\<close>.\<close>

fun truthy :: "jsval \<Rightarrow> bool" where
  "truthy Undefined = False"
| "truthy Null = False"
| "truthy (Bool b) = b"
| "truthy (Num n) = (n \<noteq> 0)"
| "truthy (Str s) = (s \<noteq> [])"

text \<open>\<^verbatim>\<open>a || b\<close> on values.\<close>

definition js_or :: "jsval \<Rightarrow> jsval \<Rightarrow> jsval" where
  "js_or a b = (if truthy a then a else b)"

text \<open>\<^verbatim>\<open>typeof v === "string"\<close>.\<close>

fun is_string :: "jsval \<Rightarrow> bool" where
  "is_string (Str s) = True"
| "is_string v = False"

text \<open>
  \<^verbatim>\<open>String.prototype.trim\<close>. The white space and line terminator code units below
  256 are tab, line feed, vertical tab, form feed, carriage return, space and the
  no-break space U+00A0.
\<close>

definition is_ws :: "char \<Rightarrow> bool" where
  "is_ws c =
     (c \<in> set [CHR 0x09, CHR 0x0A, CHR 0x0B, CHR 0x0C, CHR 0x0D, CHR 0x20, CHR 0xA0])"

definition trim :: "string \<Rightarrow> string" where
  "trim s = rev (dropWhile is_ws (rev (dropWhile is_ws s)))"

text \<open>
  Decimal digits of a number, for \<^verbatim>\<open>String(v)\<close> and template literals (numbers of
  magnitude below \<open>2 ^ 53\<close>, see above).
\<close>

function nat_to_dec :: "nat \<Rightarrow> string" where
  "nat_to_dec n =
     (if n < 10 then [char_of (48 + n)]
      else nat_to_dec (n div 10) @ [char_of (48 + n mod 10)])"
  by pat_completeness auto
termination
  by (relation "measure id") auto

definition int_to_dec :: "int \<Rightarrow> string" where
  "int_to_dec i = (if i < 0 then CHR ''-'' # nat_to_dec (nat (- i)) else nat_to_dec (nat i))"

fun to_str :: "jsval \<Rightarrow> string" where
  "to_str Undefined = ''undefined''"
| "to_str Null = ''null''"
| "to_str (Bool b) = (if b then ''true'' else ''false'')"
| "to_str (Num n) = int_to_dec n"
| "to_str (Str s) = s"


section \<open>Record store rows\<close>

text \<open>
  Column values are JS values as the store client returns them (\<open>Null\<close> for SQL
  NULL); timestamps are milliseconds since the epoch.
\<close>

record message =
  m_id :: jsval
  m_conversation_id :: jsval
  m_sender_id :: jsval
  m_content :: jsval
  m_read_at :: "int option"

record conversation =
  c_id :: jsval
  c_user1_id :: jsval
  c_user2_id :: jsval
  c_product_id :: jsval

record userinfo =
  u_id :: jsval
  u_firstName :: jsval
  u_lastName :: jsval

record product =
  p_id :: jsval
  p_title :: jsval

text \<open>
  The tables the chat handlers use. A filter \<^verbatim>\<open>.eq(col, v)\<close> keeps the rows whose
  column equals the supplied value, \<^verbatim>\<open>.neq\<close> the rows where it differs (the compared
  columns are taken to hold no SQL NULL). \<^verbatim>\<open>.single()\<close> yields the row when exactly
  one row is left and an error otherwise.
\<close>

record store =
  messages :: "message list"
  conversations :: "conversation list"
  userinfo_rows :: "userinfo list"
  agri_products :: "product list"

definition single :: "'a list \<Rightarrow> 'a option" where
  "single rows = (case rows of [r] \<Rightarrow> Some r | _ \<Rightarrow> None)"

text \<open>Whether a call to the store comes back with an error.\<close>

datatype fault = NoFault | Fails

section \<open>Connection layer\<close>

type_synonym socket_id = string

text \<open>
  A JS \<^verbatim>\<open>Set\<close> of socket ids: a list without duplicates in insertion order.
  \<^verbatim>\<open>add\<close> of a member changes nothing.
\<close>

definition set_add :: "'a \<Rightarrow> 'a list \<Rightarrow> 'a list" where
  "set_add x xs = (if x \<in> set xs then xs else xs @ [x])"

definition set_delete :: "'a \<Rightarrow> 'a list \<Rightarrow> 'a list" where
  "set_delete x xs = filter (\<lambda>y. y \<noteq> x) xs"

text \<open>The object kept per user in \<^verbatim>\<open>userActivity\<close>; \<^verbatim>\<open>{}\<close> has both fields undefined.\<close>

record activity =
  page :: jsval
  activeConversation :: jsval

definition empty_activity :: activity where
  "empty_activity = \<lparr>page = Undefined, activeConversation = Undefined\<rparr>"

text \<open>
  The state of one server process. \<open>userSocketMap\<close> is the module-level map
  (part_000 line 489, line 55 in the older server). \<open>userActivity\<close> is declared inside
  the connection callback (line 581, line 139 in the older server), so there is one map per
  socket. \<open>sockets\<close> are the connected sockets, \<open>socket_userId\<close> is the
  \<^verbatim>\<open>socket.userId\<close> property and \<open>joined\<close> the rooms a socket entered by
  \<^verbatim>\<open>socket.join\<close>.
\<close>

record server =
  sockets :: "socket_id list"
  socket_userId :: "socket_id \<Rightarrow> jsval"
  joined :: "socket_id \<Rightarrow> jsval list"
  userSocketMap :: "jsval \<rightharpoonup> socket_id list"
  userActivity :: "socket_id \<Rightarrow> (jsval \<rightharpoonup> activity)"

definition init_server :: server where
  "init_server =
     \<lparr>sockets = [], socket_userId = (\<lambda>s. Undefined), joined = (\<lambda>s. []),
      userSocketMap = Map.empty, userActivity = (\<lambda>s. Map.empty)\<rparr>"

text \<open>What the server emits: \<^verbatim>\<open>io.emit\<close> goes to everyone, \<^verbatim>\<open>io.to(r).emit\<close> to a room.\<close>

datatype target = Everyone | Room jsval

datatype out_event =
    OnlineStatus jsval bool "int option"
  | ReceiveMessage message
  | MessagesSeen jsval jsval "jsval list" nat

type_synonym emission = "target \<times> out_event"

text \<open>
  A connected socket is in the room named by its own id and in every room it joined;
  an emission reaches the sockets of its target.
\<close>

definition in_room :: "server \<Rightarrow> socket_id \<Rightarrow> jsval \<Rightarrow> bool" where
  "in_room st c r = (c \<in> set (sockets st) \<and> (r = Str c \<or> r \<in> set (joined st c)))"

fun reaches :: "server \<Rightarrow> socket_id \<Rightarrow> target \<Rightarrow> bool" where
  "reaches st c Everyone = (c \<in> set (sockets st))"
| "reaches st c (Room r) = in_room st c r"

subsection \<open>Connection and registration\<close>

text \<open>\<^verbatim>\<open>io.on("connection", ...)\<close>: a new socket with a fresh activity map.\<close>

definition connection :: "socket_id \<Rightarrow> server \<Rightarrow> server" where
  "connection sid st =
     st\<lparr>sockets := set_add sid (sockets st),
        socket_userId := (socket_userId st)(sid := Undefined),
        joined := (joined st)(sid := []),
        userActivity := (userActivity st)(sid := Map.empty)\<rparr>"

text \<open>
  The registration payload: a primitive, or an object of which the fields are listed (each
  name once).
\<close>

datatype reg_payload = Prim jsval | Object "(string \<times> jsval) list"

text \<open>Line 546: \<^verbatim>\<open>typeof payload === "string" ? payload : payload?.userId\<close>.\<close>

fun payload_userId :: "reg_payload \<Rightarrow> jsval" where
  "payload_userId (Prim (Str s)) = Str s"
| "payload_userId (Prim v) = Undefined"
| "payload_userId (Object fs) = (case map_of fs ''userId'' of Some v \<Rightarrow> v | None \<Rightarrow> Undefined)"

text \<open>
  Lines 552 to 567, the same statements as lines 110 to 125 of the older server: remember
  the owner on the socket, add the socket to the owner's set, emit when the set has size 1.
\<close>

definition register_socket :: "socket_id \<Rightarrow> jsval \<Rightarrow> server \<Rightarrow> server \<times> emission list" where
  "register_socket sid userId st =
     (let existing = (case userSocketMap st userId of Some s \<Rightarrow> s | None \<Rightarrow> []);
          existing' = set_add sid existing;
          st' = st\<lparr>socket_userId := (socket_userId st)(sid := userId),
                   userSocketMap := (userSocketMap st)(userId \<mapsto> existing')\<rparr>
      in (st', if length existing' = 1
               then [(Everyone, OnlineStatus userId True None)] else []))"

text \<open>\<^verbatim>\<open>markUserOnline\<close> of the newer server (lines 544 to 568), with its guard.\<close>

definition markUserOnline :: "socket_id \<Rightarrow> reg_payload \<Rightarrow> server \<Rightarrow> server \<times> emission list" where
  "markUserOnline sid payload st =
     (let userId = payload_userId payload
      in if \<not> truthy userId \<or> \<not> is_string userId \<or> trim (to_str userId) = []
         then (st, [])
         else register_socket sid userId st)"

text \<open>
  \<^verbatim>\<open>markUserOnline\<close> of the older server (lines 109 to 126): the payload is the user
  id, unchecked. The payload is a primitive here (a JS \<^verbatim>\<open>Map\<close> compares object keys
  by identity).
\<close>

definition markUserOnline_older :: "socket_id \<Rightarrow> jsval \<Rightarrow> server \<Rightarrow> server \<times> emission list" where
  "markUserOnline_older sid userId st = register_socket sid userId st"

subsection \<open>Rooms and activity\<close>

definition join_conversation :: "socket_id \<Rightarrow> jsval \<Rightarrow> server \<Rightarrow> server" where
  "join_conversation sid conversation_id st =
     st\<lparr>joined := (joined st)(sid := set_add conversation_id (joined st sid))\<rparr>"

text \<open>Lines 582 to 597; the map is the one of the socket that received the event.\<close>

definition get_or_create :: "(jsval \<rightharpoonup> activity) \<Rightarrow> jsval \<Rightarrow> activity" where
  "get_or_create ua userId = (case ua userId of Some a \<Rightarrow> a | None \<Rightarrow> empty_activity)"

definition user_page :: "socket_id \<Rightarrow> jsval \<Rightarrow> jsval \<Rightarrow> server \<Rightarrow> server" where
  "user_page sid userId pg st =
     (let ua = userActivity st sid
      in st\<lparr>userActivity :=
              (userActivity st)(sid := ua(userId \<mapsto> (get_or_create ua userId)\<lparr>page := pg\<rparr>))\<rparr>)"

definition user_conversation :: "socket_id \<Rightarrow> jsval \<Rightarrow> jsval \<Rightarrow> jsval \<Rightarrow> server \<Rightarrow> server" where
  "user_conversation sid userId conversationId active st =
     (let ua = userActivity st sid;
          v = (if truthy active then conversationId else Null)
      in st\<lparr>userActivity :=
              (userActivity st)(sid := ua(userId \<mapsto> (get_or_create ua userId)\<lparr>activeConversation := v\<rparr>))\<rparr>)"

subsection \<open>Disconnect\<close>

text \<open>
  Lines 979 to 1016 (386 to 417 in the older server). By the time the handler runs the
  socket has left the server's socket list and its rooms.
\<close>

definition disconnect :: "socket_id \<Rightarrow> int \<Rightarrow> server \<Rightarrow> server \<times> emission list" where
  "disconnect sid now st =
     (let userId = socket_userId st sid;
          st0 = st\<lparr>sockets := set_delete sid (sockets st), joined := (joined st)(sid := [])\<rparr>
      in if \<not> truthy userId then (st0, [])
         else case userSocketMap st userId of
                None \<Rightarrow> (st0, [])
              | Some s \<Rightarrow>
                  (let s' = set_delete sid s
                   in if length s' = 0
                      then (st0\<lparr>userSocketMap := (userSocketMap st)(userId := None)\<rparr>,
                            [(Everyone, OnlineStatus userId False (Some now))])
                      else (st0\<lparr>userSocketMap := (userSocketMap st)(userId \<mapsto> s')\<rparr>, [])))"

subsection \<open>Event sequences\<close>

text \<open>
  The connection-layer events of the newer server that touch presence and activity. A
  connection event is handled for a socket id that is not connected, every other event for
  a socket that is; \<open>run\<close> handles a sequence in order and collects the emissions.
\<close>

datatype event =
    Connection socket_id
  | RegisterUser socket_id reg_payload
  | UserOnline socket_id reg_payload
  | JoinConversation socket_id jsval
  | UserPage socket_id jsval jsval
  | UserConversation socket_id jsval jsval jsval
  | Disconnect socket_id int

fun socket_of :: "event \<Rightarrow> socket_id" where
  "socket_of (Connection s) = s"
| "socket_of (RegisterUser s p) = s"
| "socket_of (UserOnline s p) = s"
| "socket_of (JoinConversation s c) = s"
| "socket_of (UserPage s u p) = s"
| "socket_of (UserConversation s u c a) = s"
| "socket_of (Disconnect s t) = s"

fun handle :: "event \<Rightarrow> server \<Rightarrow> server \<times> emission list" where
  "handle (Connection s) st = (connection s st, [])"
| "handle (RegisterUser s p) st = markUserOnline s p st"
| "handle (UserOnline s p) st = markUserOnline s p st"
| "handle (JoinConversation s c) st = (join_conversation s c st, [])"
| "handle (UserPage s u p) st = (user_page s u p st, [])"
| "handle (UserConversation s u c a) st = (user_conversation s u c a st, [])"
| "handle (Disconnect s t) st = disconnect s t st"

definition is_connection :: "event \<Rightarrow> bool" where
  "is_connection e = (case e of Connection s \<Rightarrow> True | _ \<Rightarrow> False)"

definition step :: "server \<Rightarrow> event \<Rightarrow> server \<times> emission list" where
  "step st e =
     (if is_connection e
      then (if socket_of e \<in> set (sockets st) then (st, []) else handle e st)
      else (if socket_of e \<in> set (sockets st) then handle e st else (st, [])))"

fun run :: "server \<Rightarrow> event list \<Rightarrow> server \<times> emission list" where
  "run st [] = (st, [])"
| "run st (e # es) =
     (case step st e of (st', out) \<Rightarrow> (case run st' es of (st'', out') \<Rightarrow> (st'', out @ out')))"


section \<open>Conversation router: sendMessage\<close>

text \<open>
  The handler of part_000 lines 605 to 734; lines 163 to 292 of the older server are the
  same statements. A handler is taken as one step: the room broadcast, the direct delivery
  and the push decision (lines 636 to 658) run without suspension in between. The insertion
  of the message and the lookup of the participants can fail; the lookups that only feed
  the text of the notification are taken to answer. The payload is an object whose three
  fields may be missing.
\<close>

record send_env =
  se_insert :: fault
  se_new_id :: jsval
  se_fetch :: fault

text \<open>The argument of the call to \<^verbatim>\<open>sendNotificationToUser\<close> (lines 698 to 710).\<close>

record push_call =
  pc_userId :: jsval
  pc_title :: jsval
  pc_body :: jsval
  pc_data :: "(string \<times> jsval) list"

datatype send_outcome = MissingFields | StoreError | Sent

record send_result =
  sr_outcome :: send_outcome
  sr_store :: store
  sr_emitted :: "emission list"
  sr_push :: "push_call option"

definition new_message :: "send_env \<Rightarrow> jsval \<Rightarrow> jsval \<Rightarrow> jsval \<Rightarrow> message" where
  "new_message env sender_id conversation_id content =
     \<lparr>m_id = se_new_id env, m_conversation_id = conversation_id, m_sender_id = sender_id,
      m_content = content, m_read_at = None\<rparr>"

text \<open>Lines 625 to 631: the conversation's participants, or the error that is thrown.\<close>

definition fetch_participants :: "send_env \<Rightarrow> store \<Rightarrow> jsval \<Rightarrow> conversation option" where
  "fetch_participants env db conversation_id =
     (if se_fetch env = Fails then None
      else single (filter (\<lambda>c. c_id c = conversation_id) (conversations db)))"

text \<open>Line 639.\<close>

definition recipient :: "conversation \<Rightarrow> jsval \<Rightarrow> jsval" where
  "recipient convo sender_id =
     (if sender_id = c_user1_id convo then c_user2_id convo else c_user1_id convo)"

text \<open>
  Lines 649 to 658. The activity is read from the \<^verbatim>\<open>userActivity\<close> map of the socket
  whose handler runs.
\<close>

definition shouldSendNotification :: "server \<Rightarrow> socket_id \<Rightarrow> jsval \<Rightarrow> jsval \<Rightarrow> bool" where
  "shouldSendNotification st sid recipientId conversation_id =
     (let recipientOnline = (userSocketMap st recipientId \<noteq> None);
          activity = get_or_create (userActivity st sid) recipientId;
          isInChatsPage = (page activity = Str ''chats'');
          isReadingConversation = (activeConversation activity = conversation_id)
      in \<not> recipientOnline \<or> \<not> isInChatsPage \<or> \<not> isReadingConversation)"

text \<open>Lines 663 to 671.\<close>

definition sender_name :: "store \<Rightarrow> jsval \<Rightarrow> string" where
  "sender_name db sender_id =
     (case single (filter (\<lambda>u. u_id u = sender_id) (userinfo_rows db)) of
        None \<Rightarrow> ''Someone''
      | Some info \<Rightarrow>
          (let n = trim (to_str (js_or (u_firstName info) (Str [])) @ '' ''
                         @ to_str (js_or (u_lastName info) (Str [])))
           in if n = [] then ''Someone'' else n))"

text \<open>
  Lines 681 and 682; \<^verbatim>\<open>length\<close> of a value that is not a string is undefined and the
  comparison false. \<^verbatim>\<open>length\<close> and \<^verbatim>\<open>substring\<close> count code units.
\<close>

fun notification_body :: "jsval \<Rightarrow> jsval" where
  "notification_body (Str s) = (if length s > 100 then Str (take 100 s @ ''...'') else Str s)"
| "notification_body v = v"

text \<open>Lines 674 to 710: the notification that is handed to the dispatch.\<close>

definition compose_push :: "store \<Rightarrow> message \<Rightarrow> jsval \<Rightarrow> jsval \<Rightarrow> jsval \<Rightarrow> jsval \<Rightarrow> push_call" where
  "compose_push db message recipientId sender_id conversation_id content =
     (let senderName = sender_name db sender_id;
          product_id = (case single (filter (\<lambda>c. c_id c = conversation_id) (conversations db)) of
                          None \<Rightarrow> Undefined | Some c \<Rightarrow> c_product_id c);
          prod = (if truthy product_id
                  then single (filter (\<lambda>p. p_id p = product_id) (agri_products db))
                  else None);
          title = (case prod of
                     None \<Rightarrow> ''New message from '' @ senderName
                   | Some p \<Rightarrow> ''New inquiry about '' @ to_str (p_title p));
          body = (case prod of
                    None \<Rightarrow> notification_body content
                  | Some p \<Rightarrow> Str (senderName @ '' sent a message''))
      in \<lparr>pc_userId = recipientId, pc_title = Str title, pc_body = body,
          pc_data =
            [(''type'', Str (if truthy product_id then ''product_inquiry'' else ''chat_message'')),
             (''conversationId'', conversation_id),
             (''senderId'', sender_id),
             (''messageId'', m_id message),
             (''productId'', js_or product_id Null),
             (''url'', Str (''/chats?conversation='' @ to_str conversation_id)),
             (''platform'', Str ''all'')]\<rparr>)"

definition sendMessage ::
  "socket_id \<Rightarrow> jsval \<Rightarrow> jsval \<Rightarrow> jsval \<Rightarrow> send_env \<Rightarrow> server \<Rightarrow> store \<Rightarrow> send_result" where
  "sendMessage sid sender_id conversation_id content env st db =
     (if \<not> truthy sender_id \<or> \<not> truthy conversation_id \<or> \<not> truthy content
      then \<lparr>sr_outcome = MissingFields, sr_store = db, sr_emitted = [], sr_push = None\<rparr>
      else if se_insert env = Fails
      then \<lparr>sr_outcome = StoreError, sr_store = db, sr_emitted = [], sr_push = None\<rparr>
      else
        (let message = new_message env sender_id conversation_id content;
             db1 = db\<lparr>messages := messages db @ [message]\<rparr>
         in case fetch_participants env db1 conversation_id of
              None \<Rightarrow>
                \<lparr>sr_outcome = StoreError, sr_store = db1, sr_emitted = [], sr_push = None\<rparr>
            | Some convo \<Rightarrow>
                (let recipientId = recipient convo sender_id;
                     room = [(Room conversation_id, ReceiveMessage message)];
                     direct = (case userSocketMap st recipientId of
                                 None \<Rightarrow> []
                               | Some recipientSockets \<Rightarrow>
                                   if recipientId \<noteq> sender_id
                                   then map (\<lambda>sId. (Room (Str sId), ReceiveMessage message))
                                          recipientSockets
                                   else []);
                     push = (if truthy recipientId \<and> recipientId \<noteq> sender_id
                                \<and> shouldSendNotification st sid recipientId conversation_id
                             then Some (compose_push db1 message recipientId sender_id
                                          conversation_id content)
                             else None)
                 in \<lparr>sr_outcome = Sent, sr_store = db1, sr_emitted = room @ direct,
                     sr_push = push\<rparr>)))"

section \<open>Read-receipt reconciler: markAsRead\<close>

text \<open>
  The handler of part_000 lines 736 to 826 (294 to 384 in the older server). The update
  and the count use the same filter: rows of the conversation, sent by someone other than
  the reader, not yet read.
\<close>

record read_env =
  re_update :: fault
  re_count :: fault
  re_now :: int

record read_result =
  rr_store :: store
  rr_updated :: "(jsval \<times> jsval) list"
  rr_emitted :: "emission list"

definition unread_for :: "jsval \<Rightarrow> jsval \<Rightarrow> message \<Rightarrow> bool" where
  "unread_for conversation_id reader_id m =
     (m_conversation_id m = conversation_id \<and> m_sender_id m \<noteq> reader_id \<and> m_read_at m = None)"

text \<open>Lines 739 to 745: the rows after the update, and the rows the update returns.\<close>

definition mark_rows :: "jsval \<Rightarrow> jsval \<Rightarrow> int \<Rightarrow> message list \<Rightarrow> message list" where
  "mark_rows conversation_id reader_id now ms =
     map (\<lambda>m. if unread_for conversation_id reader_id m then m\<lparr>m_read_at := Some now\<rparr> else m) ms"

definition updated_rows :: "jsval \<Rightarrow> jsval \<Rightarrow> message list \<Rightarrow> (jsval \<times> jsval) list" where
  "updated_rows conversation_id reader_id ms =
     map (\<lambda>m. (m_id m, m_sender_id m)) (filter (unread_for conversation_id reader_id) ms)"

text \<open>Lines 752 to 757 and 782 to 787: the exact count of the rows left unread.\<close>

definition unread_count :: "store \<Rightarrow> jsval \<Rightarrow> jsval \<Rightarrow> nat" where
  "unread_count db conversation_id reader_id =
     length (filter (unread_for conversation_id reader_id) (messages db))"

text \<open>\<^verbatim>\<open>[...new Set(xs)]\<close>: the first occurrences, in order.\<close>

definition uniq :: "'a list \<Rightarrow> 'a list" where
  "uniq xs = fold set_add xs []"

text \<open>Lines 807 to 822: the direct notification of one sender.\<close>

definition notify_sender :: "server \<Rightarrow> out_event \<Rightarrow> jsval \<Rightarrow> emission list" where
  "notify_sender st ev sid =
     (case userSocketMap st sid of
        None \<Rightarrow> []
      | Some sSockets \<Rightarrow>
          if length sSockets \<noteq> 0 then map (\<lambda>sId. (Room (Str sId), ev)) sSockets else [])"

definition markAsRead :: "jsval \<Rightarrow> jsval \<Rightarrow> read_env \<Rightarrow> server \<Rightarrow> store \<Rightarrow> read_result" where
  "markAsRead conversation_id reader_id env st db =
     (if re_update env = Fails
      then \<lparr>rr_store = db, rr_updated = [], rr_emitted = []\<rparr>
      else
        (let updated = updated_rows conversation_id reader_id (messages db);
             db1 = db\<lparr>messages := mark_rows conversation_id reader_id (re_now env) (messages db)\<rparr>
         in if length updated = 0
            then
              (let unreadCount = (if re_count env = Fails then None
                                  else Some (unread_count db1 conversation_id reader_id))
               in \<lparr>rr_store = db1, rr_updated = updated,
                   rr_emitted =
                     [(Room conversation_id,
                       MessagesSeen conversation_id reader_id []
                         (case unreadCount of None \<Rightarrow> 0 | Some n \<Rightarrow> n))]\<rparr>)
            else if re_count env = Fails
            then \<lparr>rr_store = db1, rr_updated = updated, rr_emitted = []\<rparr>
            else
              (let seen_message_ids = map fst updated;
                   senderIds = uniq (map snd updated);
                   ev = MessagesSeen conversation_id reader_id seen_message_ids
                          (unread_count db1 conversation_id reader_id)
               in \<lparr>rr_store = db1, rr_updated = updated,
                   rr_emitted = (Room conversation_id, ev)
                                # concat (map (notify_sender st ev) senderIds)\<rparr>)))"

section \<open>Notification service\<close>

text \<open>
  The tables \<^verbatim>\<open>lib/notificationService.js\<close> uses. \<open>auth_users\<close> pairs a user id with
  the \<^verbatim>\<open>notifications_enabled\<close> entry of the user's metadata (\<open>Undefined\<close> when it
  is not set).
\<close>

record fcm_token =
  t_user_id :: jsval
  t_token :: jsval
  t_device_type :: jsval

record notification_row =
  n_user_id :: jsval
  n_title :: jsval
  n_body :: jsval
  n_link :: jsval
  n_seen :: bool

record alert_row =
  a_user_id :: jsval
  a_alert_type :: jsval
  a_weather_data :: "(string \<times> jsval) list"
  a_sent_at :: int

record nstore =
  auth_users :: "(jsval \<times> jsval) list"
  notifications :: "notification_row list"
  fcm_tokens :: "fcm_token list"
  weather_alerts_sent :: "alert_row list"

text \<open>
  How a call to a collaborator ends: with data, with an error in the result object, or with
  a thrown exception. The strings are the error messages.
\<close>

datatype call = Returns | ReturnsError string | Throws string

text \<open>Objects with primitive fields: \<^verbatim>\<open>o.k\<close>, and \<^verbatim>\<open>{...o, k: v}\<close>.\<close>

definition obj_get :: "(string \<times> jsval) list \<Rightarrow> string \<Rightarrow> jsval" where
  "obj_get obj k = (case map_of obj k of None \<Rightarrow> Undefined | Some v \<Rightarrow> v)"

fun obj_put :: "string \<Rightarrow> jsval \<Rightarrow> (string \<times> jsval) list \<Rightarrow> (string \<times> jsval) list" where
  "obj_put k v [] = [(k, v)]"
| "obj_put k v ((k', v') # obj) = (if k' = k then (k, v) # obj else (k', v') # obj_put k v obj)"

definition obj_spread :: "(string \<times> jsval) list \<Rightarrow> (string \<times> jsval) list \<Rightarrow> (string \<times> jsval) list" where
  "obj_spread obj extra = fold (\<lambda>kv. obj_put (fst kv) (snd kv)) extra obj"

subsection \<open>lib/fcmServer.js\<close>

text \<open>
  The message handed to the FCM endpoint (lines 107 to 134, without the constant
  presentation hints), and the settled state of a send.
\<close>

record fcm_message =
  f_project :: jsval
  f_token :: jsval
  f_title :: jsval
  f_body :: jsval
  f_data :: "(string \<times> string) list"
  f_link :: jsval

datatype settled = Fulfilled | Rejected

text \<open>
  The environment of a dispatch: how the store calls end, the two project id variables of
  the process environment, whether the gateway accepts a message (credentials included),
  and the time stamp put into the data.
\<close>

record notify_env =
  ne_pref :: call
  ne_insert :: call
  ne_tokens :: call
  ne_project_public :: jsval
  ne_project :: jsval
  ne_gateway :: "fcm_message \<Rightarrow> bool"
  ne_now_iso :: string

text \<open>\<^verbatim>\<open>sendPushNotification\<close>, lines 95 to 137.\<close>

definition sendPushNotification ::
  "notify_env \<Rightarrow> jsval \<Rightarrow> jsval \<Rightarrow> jsval \<Rightarrow> jsval \<Rightarrow> (string \<times> jsval) list \<Rightarrow> settled" where
  "sendPushNotification env projectId token title body data =
     (let projectId' = (if \<not> truthy projectId then ne_project_public env else projectId)
      in if \<not> truthy projectId' then Rejected
         else if \<not> truthy token then Rejected
         else if ne_gateway env
                   \<lparr>f_project = projectId', f_token = token, f_title = title, f_body = body,
                    f_data = map (\<lambda>kv. (fst kv, to_str (snd kv))) data,
                    f_link = js_or (obj_get data ''url'') (Str ''/'')\<rparr>
              then Fulfilled else Rejected)"

text \<open>
  \<^verbatim>\<open>sendPushNotificationToMultiple\<close>, lines 142 to 164: \<open>None\<close> is the exception for
  an empty token list, otherwise the numbers of fulfilled and rejected sends.
\<close>

definition sendPushNotificationToMultiple ::
  "notify_env \<Rightarrow> jsval \<Rightarrow> jsval list \<Rightarrow> jsval \<Rightarrow> jsval \<Rightarrow> (string \<times> jsval) list \<Rightarrow> (nat \<times> nat) option" where
  "sendPushNotificationToMultiple env projectId tokens title body data =
     (if length tokens = 0 then None
      else
        (let results = map (\<lambda>t. sendPushNotification env projectId t title body data) tokens
         in Some (length (filter (\<lambda>r. r = Fulfilled) results),
                  length (filter (\<lambda>r. r = Rejected) results))))"

subsection \<open>sendNotificationToUser\<close>

record notification =
  nt_title :: jsval
  nt_body :: jsval
  nt_data :: "(string \<times> jsval) list"

text \<open>The object a send returns; an absent number is \<open>None\<close>, an absent flag is false.\<close>

record notify_result =
  nr_success :: bool
  nr_error :: "string option"
  nr_skipped :: bool
  nr_limitReached :: bool
  nr_sent :: "nat option"
  nr_failed :: "nat option"
  nr_total :: "nat option"

definition failure :: "string \<Rightarrow> notify_result" where
  "failure msg =
     \<lparr>nr_success = False, nr_error = Some msg, nr_skipped = False, nr_limitReached = False,
      nr_sent = None, nr_failed = None, nr_total = None\<rparr>"

text \<open>
  What a send does: its result, the store afterwards, and the tokens for which a push was
  attempted.
\<close>

record notify_outcome =
  no_result :: notify_result
  no_store :: nstore
  no_dispatched :: "jsval list"

text \<open>Lines 31 to 47: whether the preference check ends the send.\<close>

definition notifications_disabled :: "notify_env \<Rightarrow> nstore \<Rightarrow> jsval \<Rightarrow> bool" where
  "notifications_disabled env db userId =
     (case ne_pref env of
        Returns \<Rightarrow> (case map_of (auth_users db) userId of
                      None \<Rightarrow> False
                    | Some notificationsEnabled \<Rightarrow> notificationsEnabled = Bool False)
      | ReturnsError msg \<Rightarrow> False
      | Throws msg \<Rightarrow> False)"

text \<open>Lines 70 to 73: the token rows of a user.\<close>

definition user_tokens :: "nstore \<Rightarrow> jsval \<Rightarrow> fcm_token list" where
  "user_tokens db userId = filter (\<lambda>t. t_user_id t = userId) (fcm_tokens db)"

text \<open>Lines 90 and 94 to 98: the project id and the data of the fan-out.\<close>

definition fanout_project :: "notify_env \<Rightarrow> jsval" where
  "fanout_project env = js_or (ne_project_public env) (ne_project env)"

definition fanout_data :: "notify_env \<Rightarrow> jsval \<Rightarrow> notification \<Rightarrow> (string \<times> jsval) list" where
  "fanout_data env userId n =
     obj_put ''timestamp'' (Str (ne_now_iso env))
       (obj_put ''userId'' (Str (to_str userId)) (nt_data n))"

text \<open>Lines 49 to 106: persistence, token lookup and fan-out.\<close>

definition deliver :: "notify_env \<Rightarrow> nstore \<Rightarrow> jsval \<Rightarrow> notification \<Rightarrow> notify_outcome" where
  "deliver env db userId n =
     (let data = nt_data n;
          link = js_or (obj_get data ''url'') (js_or (obj_get data ''link'') Null);
          db1 = (case ne_insert env of
                   Returns \<Rightarrow>
                     db\<lparr>notifications := notifications db @
                          [\<lparr>n_user_id = userId, n_title = nt_title n, n_body = nt_body n,
                            n_link = link, n_seen = False\<rparr>]\<rparr>
                 | ReturnsError msg \<Rightarrow> db
                 | Throws msg \<Rightarrow> db)
      in case ne_tokens env of
           Throws msg \<Rightarrow> \<lparr>no_result = failure msg, no_store = db1, no_dispatched = []\<rparr>
         | ReturnsError msg \<Rightarrow> \<lparr>no_result = failure msg, no_store = db1, no_dispatched = []\<rparr>
         | Returns \<Rightarrow>
             (let tokens = user_tokens db1 userId
              in if length tokens = 0
                 then \<lparr>no_result = (failure ''No tokens found'')\<lparr>nr_sent := Some 0\<rparr>,
                       no_store = db1, no_dispatched = []\<rparr>
                 else
                   (let tokenList = map t_token tokens
                    in case sendPushNotificationToMultiple env (fanout_project env) tokenList
                              (nt_title n) (nt_body n) (fanout_data env userId n) of
                         None \<Rightarrow>
                           \<lparr>no_result = failure ''No tokens provided'', no_store = db1,
                            no_dispatched = []\<rparr>
                       | Some result \<Rightarrow>
                           \<lparr>no_result =
                              \<lparr>nr_success = True, nr_error = None, nr_skipped = False,
                               nr_limitReached = False, nr_sent = Some (fst result),
                               nr_failed = Some (snd result),
                               nr_total = Some (length tokenList)\<rparr>,
                            no_store = db1, no_dispatched = tokenList\<rparr>)))"

text \<open>\<^verbatim>\<open>sendNotificationToUser\<close>, lines 23 to 111.\<close>

definition sendNotificationToUser :: "notify_env \<Rightarrow> nstore \<Rightarrow> jsval \<Rightarrow> notification \<Rightarrow> notify_outcome" where
  "sendNotificationToUser env db userId n =
     (if \<not> truthy userId
      then \<lparr>no_result = failure ''User ID required'', no_store = db, no_dispatched = []\<rparr>
      else if notifications_disabled env db userId
      then \<lparr>no_result = (failure ''Notifications disabled by user'')\<lparr>nr_skipped := True\<rparr>,
            no_store = db, no_dispatched = []\<rparr>
      else deliver env db userId n)"

subsection \<open>Weather alerts\<close>

text \<open>
  Lines 136 and 137 set the current time to local midnight with
  \<^verbatim>\<open>setHours(0, 0, 0, 0)\<close>. What that instant is depends on the time-zone rules of the
  host, which are not part of the repository: the functions below take them as the
  parameter \<open>startOfDay\<close>, the map from an instant to the start of its local day as the
  host's \<^verbatim>\<open>Date\<close> computes it.
\<close>

record limit_result =
  canSend :: bool
  count :: nat

text \<open>\<^verbatim>\<open>canSendWeatherAlert\<close>, lines 134 to 160.\<close>

definition canSendWeatherAlert ::
  "call \<Rightarrow> (int \<Rightarrow> int) \<Rightarrow> int \<Rightarrow> nstore \<Rightarrow> jsval \<Rightarrow> limit_result" where
  "canSendWeatherAlert read startOfDay now db userId =
     (let todayStart = startOfDay now
      in case read of
           Throws msg \<Rightarrow> \<lparr>canSend = True, count = 0\<rparr>
         | ReturnsError msg \<Rightarrow> \<lparr>canSend = True, count = 0\<rparr>
         | Returns \<Rightarrow>
             (let data = filter (\<lambda>r. a_user_id r = userId \<and> todayStart \<le> a_sent_at r)
                           (weather_alerts_sent db);
                  n = length data
              in \<lparr>canSend = n < 3, count = n\<rparr>))"

text \<open>\<^verbatim>\<open>recordWeatherAlertSent\<close>, lines 168 to 185.\<close>

definition recordWeatherAlertSent ::
  "call \<Rightarrow> int \<Rightarrow> nstore \<Rightarrow> jsval \<Rightarrow> jsval \<Rightarrow> (string \<times> jsval) list \<Rightarrow> nstore" where
  "recordWeatherAlertSent ins now db userId alertType weatherData =
     (case ins of
        Returns \<Rightarrow>
          db\<lparr>weather_alerts_sent := weather_alerts_sent db @
               [\<lparr>a_user_id = userId, a_alert_type = alertType, a_weather_data = weatherData,
                 a_sent_at = now\<rparr>]\<rparr>
      | ReturnsError msg \<Rightarrow> db
      | Throws msg \<Rightarrow> db)"

record alert =
  al_type :: jsval
  al_title :: jsval
  al_body :: jsval
  al_weatherData :: "(string \<times> jsval) list"

record weather_env =
  we_read :: call
  we_startOfDay :: "int \<Rightarrow> int"
  we_now :: int
  we_notify :: notify_env
  we_record :: call
  we_sent_at :: int

text \<open>Lines 211 to 220: the notification of an alert.\<close>

definition weather_notification :: "alert \<Rightarrow> notification" where
  "weather_notification a =
     \<lparr>nt_title = al_title a, nt_body = al_body a,
      nt_data = obj_spread
        [(''type'', Str ''weather_alert''), (''alertType'', al_type a), (''url'', Str ''/weather'')]
        (al_weatherData a)\<rparr>"

text \<open>\<^verbatim>\<open>sendWeatherAlert\<close>, lines 196 to 232.\<close>

definition sendWeatherAlert :: "weather_env \<Rightarrow> nstore \<Rightarrow> jsval \<Rightarrow> alert \<Rightarrow> notify_outcome" where
  "sendWeatherAlert env db userId a =
     (if \<not> canSend (canSendWeatherAlert (we_read env) (we_startOfDay env) (we_now env) db
                       userId)
      then \<lparr>no_result = (failure ''Daily limit reached'')\<lparr>nr_limitReached := True\<rparr>,
            no_store = db, no_dispatched = []\<rparr>
      else
        (let out = sendNotificationToUser (we_notify env) db userId (weather_notification a)
         in if nr_success (no_result out)
            then out\<lparr>no_store := recordWeatherAlertSent (we_record env) (we_sent_at env)
                                    (no_store out) userId (al_type a) (al_weatherData a)\<rparr>
            else out))"

section \<open>Observers used to state the properties\<close>

text \<open>The connection set the registry holds for a user, empty when there is no entry.\<close>

definition sockets_of :: "server \<Rightarrow> jsval \<Rightarrow> socket_id list" where
  "sockets_of st u = (case userSocketMap st u of None \<Rightarrow> [] | Some s \<Rightarrow> s)"

text \<open>Every connection set is duplicate free, as a JS \<^verbatim>\<open>Set\<close> is.\<close>

definition sets_distinct :: "server \<Rightarrow> bool" where
  "sets_distinct st = (\<forall>u s. userSocketMap st u = Some s \<longrightarrow> distinct s)"

text \<open>The number of live connections the registry holds for a user.\<close>

definition live_count :: "server \<Rightarrow> jsval \<Rightarrow> nat" where
  "live_count st u = (case userSocketMap st u of None \<Rightarrow> 0 | Some s \<Rightarrow> length s)"

text \<open>
  How often the live-connection count of a user goes from zero to non-zero, and from
  non-zero to zero, along a sequence of events.
\<close>

fun up_crossings :: "jsval \<Rightarrow> server \<Rightarrow> event list \<Rightarrow> nat" where
  "up_crossings u st [] = 0"
| "up_crossings u st (e # es) =
     (let st' = fst (step st e)
      in (if live_count st u = 0 \<and> 0 < live_count st' u then 1 else 0)
         + up_crossings u st' es)"

fun down_crossings :: "jsval \<Rightarrow> server \<Rightarrow> event list \<Rightarrow> nat" where
  "down_crossings u st [] = 0"
| "down_crossings u st (e # es) =
     (let st' = fst (step st e)
      in (if 0 < live_count st u \<and> live_count st' u = 0 then 1 else 0)
         + down_crossings u st' es)"

fun is_status :: "jsval \<Rightarrow> bool \<Rightarrow> emission \<Rightarrow> bool" where
  "is_status u b (Everyone, OnlineStatus u' b' t) = (u' = u \<and> b' = b)"
| "is_status u b e = False"

definition status_events :: "jsval \<Rightarrow> bool \<Rightarrow> emission list \<Rightarrow> nat" where
  "status_events u b out = length (filter (is_status u b) out)"

text \<open>Whether one step takes a user's live-connection count to zero, or away from zero.\<close>

definition went_offline :: "server \<Rightarrow> server \<Rightarrow> jsval \<Rightarrow> nat" where
  "went_offline st st' u = (if 0 < live_count st u \<and> live_count st' u = 0 then 1 else 0)"

definition came_online :: "server \<Rightarrow> server \<Rightarrow> jsval \<Rightarrow> nat" where
  "came_online st st' u = (if live_count st u = 0 \<and> 0 < live_count st' u then 1 else 0)"

text \<open>No presence entry has an empty connection set.\<close>

definition no_empty_sets :: "server \<Rightarrow> bool" where
  "no_empty_sets st = (\<forall>u. userSocketMap st u \<noteq> Some [])"

text \<open>
  A registration that passes the guard of the newer server, with the socket and the user id
  it registers; and the registrations by which the only connection of a user registers that
  user again.
\<close>

definition accepted :: "reg_payload \<Rightarrow> bool" where
  "accepted p = (truthy (payload_userId p) \<and> is_string (payload_userId p)
                 \<and> trim (to_str (payload_userId p)) \<noteq> [])"

fun registration :: "event \<Rightarrow> (socket_id \<times> jsval) option" where
  "registration (RegisterUser s p) = (if accepted p then Some (s, payload_userId p) else None)"
| "registration (UserOnline s p) = (if accepted p then Some (s, payload_userId p) else None)"
| "registration e = None"

definition repeats_sole :: "server \<Rightarrow> event \<Rightarrow> jsval \<Rightarrow> nat" where
  "repeats_sole st e u =
     (case registration e of
        None \<Rightarrow> 0
      | Some (s, v) \<Rightarrow>
          if v = u \<and> s \<in> set (sockets st) \<and> sockets_of st u = [s] then 1 else 0)"

fun sole_reregistrations :: "jsval \<Rightarrow> server \<Rightarrow> event list \<Rightarrow> nat" where
  "sole_reregistrations u st [] = 0"
| "sole_reregistrations u st (e # es) =
     repeats_sole st e u + sole_reregistrations u (fst (step st e)) es"

text \<open>
  Every member of a connection set is a connected socket whose remembered owner is the
  user of that set; and a sequence of events in which no socket registers under a user id
  other than the one it has.
\<close>

definition owned :: "server \<Rightarrow> bool" where
  "owned st = (\<forall>u s. s \<in> set (sockets_of st u) \<longrightarrow>
                 socket_userId st s = u \<and> s \<in> set (sockets st) \<and> truthy u)"

definition keeps_identity :: "server \<Rightarrow> event \<Rightarrow> bool" where
  "keeps_identity st e =
     (case registration e of
        None \<Rightarrow> True
      | Some (s, v) \<Rightarrow> socket_userId st s = Undefined \<or> socket_userId st s = v)"

fun all_keep_identity :: "server \<Rightarrow> event list \<Rightarrow> bool" where
  "all_keep_identity st [] = True"
| "all_keep_identity st (e # es) =
     (keeps_identity st e \<and> all_keep_identity (fst (step st e)) es)"

text \<open>How many \<^verbatim>\<open>receiveMessage\<close> events of a list of emissions reach a socket.\<close>

fun is_receive :: "out_event \<Rightarrow> bool" where
  "is_receive (ReceiveMessage m) = True"
| "is_receive e = False"

definition received :: "server \<Rightarrow> socket_id \<Rightarrow> emission list \<Rightarrow> nat" where
  "received st c out = length (filter (\<lambda>e. reaches st c (fst e) \<and> is_receive (snd e)) out)"

text \<open>
  The number of alert rows logged for a user at or after the start of the current local
  day.
\<close>

definition sent_today :: "(int \<Rightarrow> int) \<Rightarrow> int \<Rightarrow> nstore \<Rightarrow> jsval \<Rightarrow> nat" where
  "sent_today startOfDay now db userId =
     length (filter (\<lambda>r. a_user_id r = userId \<and> startOfDay now \<le> a_sent_at r)
               (weather_alerts_sent db))"

text \<open>
  Two hosts. The first keeps a fixed distance of \<open>tz\<close> milliseconds ahead of UTC; its
  local calendar days are numbered by \<open>local_day\<close>. The second is in New York between
  the clock changes of November 2025 and November 2026: UTC-5 until 8 March 2026 07:00 UTC
  and UTC-4 from then on, so that the local day of the change starts at 05:00 UTC and is
  23 hours long.
\<close>

definition day_ms :: int where
  "day_ms = 86400000"

definition start_of_local_day :: "int \<Rightarrow> int \<Rightarrow> int" where
  "start_of_local_day tz now = now - (now + tz) mod day_ms"

definition local_day :: "int \<Rightarrow> int \<Rightarrow> int" where
  "local_day tz t = (t + tz) div day_ms"

definition new_york_start_of_day :: "int \<Rightarrow> int" where
  "new_york_start_of_day t =
     (if t < 1772953200000 then start_of_local_day (- 18000000) t
      else (let m = start_of_local_day (- 14400000) t
            in if m < 1772953200000 then m + 3600000 else m))"

text \<open>
  The send with the preference readable and set to true, everything else as it is; and the
  row a send stores.
\<close>

definition enabled_run ::
  "notify_env \<Rightarrow> nstore \<Rightarrow> jsval \<Rightarrow> notification \<Rightarrow> notify_outcome" where
  "enabled_run env db userId n =
     sendNotificationToUser (env\<lparr>ne_pref := Returns\<rparr>)
       (db\<lparr>auth_users := (userId, Bool True) # auth_users db\<rparr>) userId n"

definition stored_row :: "jsval \<Rightarrow> notification \<Rightarrow> notification_row" where
  "stored_row userId n =
     \<lparr>n_user_id = userId, n_title = nt_title n, n_body = nt_body n,
      n_link = js_or (obj_get (nt_data n) ''url'') (js_or (obj_get (nt_data n) ''link'') Null),
      n_seen = False\<rparr>"

text \<open>Every per-token send of the fan-out of a notification is rejected.\<close>

definition all_rejected :: "notify_env \<Rightarrow> nstore \<Rightarrow> jsval \<Rightarrow> notification \<Rightarrow> bool" where
  "all_rejected env db userId n =
     list_all (\<lambda>t. sendPushNotification env (fanout_project env) (t_token t)
                     (nt_title n) (nt_body n) (fanout_data env userId n) = Rejected)
       (user_tokens db userId)"

section \<open>A small deployment\<close>

text \<open>
  One conversation \<open>c1\<close> between the users \<open>u1\<close> and \<open>u2\<close>. User \<open>u1\<close> is
  connected through socket \<open>s1\<close>, user \<open>u2\<close> through socket \<open>s2\<close>, and \<open>s2\<close>
  has joined the room of the conversation.
\<close>

definition demo_convo :: conversation where
  "demo_convo =
     \<lparr>c_id = Str ''c1'', c_user1_id = Str ''u1'', c_user2_id = Str ''u2'', c_product_id = Null\<rparr>"

definition demo_store :: store where
  "demo_store =
     \<lparr>messages = [], conversations = [demo_convo],
      userinfo_rows = [\<lparr>u_id = Str ''u1'', u_firstName = Str ''Asha'', u_lastName = Null\<rparr>],
      agri_products = []\<rparr>"

definition demo_env :: send_env where
  "demo_env = \<lparr>se_insert = NoFault, se_new_id = Str ''m1'', se_fetch = NoFault\<rparr>"

definition two_users :: "event list" where
  "two_users =
     [Connection ''s1'', Connection ''s2'',
      RegisterUser ''s1'' (Prim (Str ''u1'')), RegisterUser ''s2'' (Prim (Str ''u2'')),
      JoinConversation ''s2'' (Str ''c1'')]"

text \<open>User \<open>u2\<close> reports, on its own socket, the chats page with \<open>c1\<close> open.\<close>

definition reading_server :: server where
  "reading_server =
     fst (run init_server
       (two_users @
        [UserPage ''s2'' (Str ''u2'') (Str ''chats''),
         UserConversation ''s2'' (Str ''u2'') (Str ''c1'') (Bool True)]))"

text \<open>
  The conversation \<open>c1\<close> is reported open for \<open>u2\<close> on a page other than the chats
  page; the reports arrive on both sockets, so each socket's activity map has them.
\<close>

definition profile_server :: server where
  "profile_server =
     fst (run init_server
       (two_users @
        [UserPage ''s2'' (Str ''u2'') (Str ''profile''),
         UserConversation ''s2'' (Str ''u2'') (Str ''c1'') (Bool True),
         UserPage ''s1'' (Str ''u2'') (Str ''profile''),
         UserConversation ''s1'' (Str ''u2'') (Str ''c1'') (Bool True)]))"

text \<open>
  Messages of the conversation: one unread message of each user in \<open>c1\<close>, and one in
  another conversation.
\<close>

definition demo_chat :: store where
  "demo_chat =
     demo_store\<lparr>messages :=
       [\<lparr>m_id = Str ''m1'', m_conversation_id = Str ''c1'', m_sender_id = Str ''u1'',
         m_content = Str ''hello'', m_read_at = None\<rparr>,
        \<lparr>m_id = Str ''m2'', m_conversation_id = Str ''c1'', m_sender_id = Str ''u2'',
         m_content = Str ''hi'', m_read_at = None\<rparr>,
        \<lparr>m_id = Str ''m3'', m_conversation_id = Str ''c2'', m_sender_id = Str ''u1'',
         m_content = Str ''other'', m_read_at = None\<rparr>]\<rparr>"

definition read_ok :: read_env where
  "read_ok = \<lparr>re_update = NoFault, re_count = NoFault, re_now = 5000\<rparr>"

text \<open>
  The tables of the notification service: \<open>u1\<close> has two device tokens and four alert
  rows, three of them on the second day of the epoch (UTC); \<open>u2\<close> has one token and has
  switched notifications off.
\<close>

definition demo_alerts :: nstore where
  "demo_alerts =
     \<lparr>auth_users = [(Str ''u1'', Undefined), (Str ''u2'', Bool False)],
      notifications = [],
      fcm_tokens =
        [\<lparr>t_user_id = Str ''u1'', t_token = Str ''tokA'', t_device_type = Str ''web''\<rparr>,
         \<lparr>t_user_id = Str ''u1'', t_token = Str ''tokB'', t_device_type = Str ''android''\<rparr>,
         \<lparr>t_user_id = Str ''u2'', t_token = Str ''tokC'', t_device_type = Str ''web''\<rparr>],
      weather_alerts_sent =
        [\<lparr>a_user_id = Str ''u1'', a_alert_type = Str ''rain'', a_weather_data = [],
          a_sent_at = 86399999\<rparr>,
         \<lparr>a_user_id = Str ''u1'', a_alert_type = Str ''rain'', a_weather_data = [],
          a_sent_at = 86400000\<rparr>,
         \<lparr>a_user_id = Str ''u2'', a_alert_type = Str ''rain'', a_weather_data = [],
          a_sent_at = 86400500\<rparr>,
         \<lparr>a_user_id = Str ''u1'', a_alert_type = Str ''wind'', a_weather_data = [],
          a_sent_at = 86401000\<rparr>,
         \<lparr>a_user_id = Str ''u1'', a_alert_type = Str ''high_temp'', a_weather_data = [],
          a_sent_at = 90000000\<rparr>]\<rparr>"

text \<open>The store answers, the gateway accepts no message.\<close>

definition dead_gateway :: notify_env where
  "dead_gateway =
     \<lparr>ne_pref = Returns, ne_insert = Returns, ne_tokens = Returns,
      ne_project_public = Str ''agri-app'', ne_project = Undefined,
      ne_gateway = (\<lambda>m. False), ne_now_iso = ''2026-01-02T10:00:00.000Z''\<rparr>"

definition demo_notification :: notification where
  "demo_notification =
     \<lparr>nt_title = Str ''New message from Asha'', nt_body = Str ''hello'',
      nt_data = [(''type'', Str ''chat_message''), (''url'', Str ''/chats?conversation=c1'')]\<rparr>"

definition demo_alert :: alert where
  "demo_alert =
     \<lparr>al_type = Str ''rain'', al_title = Str ''Rain expected'', al_body = Str ''Heavy rain today'',
      al_weatherData = [(''mm'', Num 40)]\<rparr>"

text \<open>An alert on the third day, when no row of the day is logged yet.\<close>

definition demo_weather_env :: weather_env where
  "demo_weather_env =
     \<lparr>we_read = Returns, we_startOfDay = start_of_local_day 0, we_now = 180000000,
      we_notify = dead_gateway, we_record = Returns, we_sent_at = 180000100\<rparr>"

text \<open>
  Alert rows of \<open>u1\<close> on 8 March 2026 at 04:30, 05:30 and 06:30 UTC: the first is
  before the start of that day in New York, the other two are after it.
\<close>

definition clock_change_alerts :: nstore where
  "clock_change_alerts =
     demo_alerts\<lparr>weather_alerts_sent :=
       [\<lparr>a_user_id = Str ''u1'', a_alert_type = Str ''rain'', a_weather_data = [],
         a_sent_at = 1772944200000\<rparr>,
        \<lparr>a_user_id = Str ''u1'', a_alert_type = Str ''wind'', a_weather_data = [],
         a_sent_at = 1772947800000\<rparr>,
        \<lparr>a_user_id = Str ''u1'', a_alert_type = Str ''rain'', a_weather_data = [],
         a_sent_at = 1772951400000\<rparr>]\<rparr>"

section \<open>Presence registry\<close>

text \<open>
  The newer server's guard: a registration whose user id is empty or missing leaves the
  state as it is and emits nothing.
\<close>

lemma markUserOnline_rejects:
  "\<not> truthy (payload_userId p) \<Longrightarrow> markUserOnline sid p st = (st, [])"
  by (simp add: markUserOnline_def)

lemma markUserOnline_rejects_blank:
  "payload_userId p = Str s \<Longrightarrow> trim s = [] \<Longrightarrow> markUserOnline sid p st = (st, [])"
  by (simp add: markUserOnline_def)

text \<open>
  C7. In the older server a registration without a user id, or with the empty string as
  user id, is not rejected: the socket is stored under the key \<open>Undefined\<close> (or under
  the empty string) and an online-status event is emitted for it. (The newer server does
  reject both, see \<open>markUserOnline_rejects\<close>.)
\<close>

theorem C7_older_server_accepts_missing_userId:
  "userSocketMap (fst (markUserOnline_older ''s1'' Undefined (connection ''s1'' init_server)))
     Undefined = Some [''s1'']
   \<and> snd (markUserOnline_older ''s1'' Undefined (connection ''s1'' init_server))
       = [(Everyone, OnlineStatus Undefined True None)]
   \<and> userSocketMap (fst (markUserOnline_older ''s1'' (Str []) (connection ''s1'' init_server)))
       (Str []) = Some [''s1'']
   \<and> snd (markUserOnline_older ''s1'' (Str []) (connection ''s1'' init_server))
       = [(Everyone, OnlineStatus (Str []) True None)]"
  by code_simp

section \<open>Connection sets stay duplicate free\<close>

lemma distinct_set_add: "distinct xs \<Longrightarrow> distinct (set_add x xs)"
  by (simp add: set_add_def)

lemma distinct_set_delete: "distinct xs \<Longrightarrow> distinct (set_delete x xs)"
  by (simp add: set_delete_def)

lemma register_socket_distinct:
  "sets_distinct st \<Longrightarrow> sets_distinct (fst (register_socket sid u st))"
  by (auto simp: sets_distinct_def register_socket_def Let_def distinct_set_add
           split: option.splits)

lemma markUserOnline_distinct:
  "sets_distinct st \<Longrightarrow> sets_distinct (fst (markUserOnline sid p st))"
  by (simp add: markUserOnline_def Let_def register_socket_distinct)

lemma disconnect_distinct:
  "sets_distinct st \<Longrightarrow> sets_distinct (fst (disconnect sid now st))"
  by (auto simp: sets_distinct_def disconnect_def Let_def distinct_set_delete
           split: option.splits if_splits)

lemma handle_distinct:
  "sets_distinct st \<Longrightarrow> sets_distinct (fst (handle e st))"
proof (cases e)
  case (Connection s)
  then show "sets_distinct st \<Longrightarrow> ?thesis"
    by (simp add: sets_distinct_def connection_def)
next
  case (JoinConversation s c)
  then show "sets_distinct st \<Longrightarrow> ?thesis"
    by (simp add: sets_distinct_def join_conversation_def)
next
  case (UserPage s u p)
  then show "sets_distinct st \<Longrightarrow> ?thesis"
    by (simp add: sets_distinct_def user_page_def Let_def)
next
  case (UserConversation s u c a)
  then show "sets_distinct st \<Longrightarrow> ?thesis"
    by (simp add: sets_distinct_def user_conversation_def Let_def)
qed (simp_all add: markUserOnline_distinct disconnect_distinct)

lemma step_eq:
  "step st e =
     (if is_connection e = (socket_of e \<in> set (sockets st)) then (st, []) else handle e st)"
  by (simp add: step_def)

lemma step_distinct: "sets_distinct st \<Longrightarrow> sets_distinct (fst (step st e))"
  by (simp add: step_eq handle_distinct)

lemma fst_run_Cons: "fst (run st (e # es)) = fst (run (fst (step st e)) es)"
  by (cases "step st e"; cases "run (fst (step st e)) es") simp

lemma snd_run_Cons: "snd (run st (e # es)) = snd (step st e) @ snd (run (fst (step st e)) es)"
  by (cases "step st e"; cases "run (fst (step st e)) es") simp

lemma run_distinct: "sets_distinct st \<Longrightarrow> sets_distinct (fst (run st es))"
proof (induction es arbitrary: st)
  case Nil
  then show ?case by simp
next
  case (Cons e es)
  from Cons.prems have "sets_distinct (fst (step st e))" by (rule step_distinct)
  then have "sets_distinct (fst (run (fst (step st e)) es))" by (rule Cons.IH)
  then show ?case by (simp only: fst_run_Cons)
qed

lemma reachable_distinct: "distinct (sockets_of (fst (run init_server es)) u)"
proof -
  have "sets_distinct init_server" by (simp add: sets_distinct_def init_server_def)
  then have "sets_distinct (fst (run init_server es))" by (rule run_distinct)
  then show ?thesis by (auto simp: sets_distinct_def sockets_of_def split: option.splits)
qed

section \<open>Presence transitions\<close>

text \<open>
  What holds of the transition events on every sequence of events of the newer server.
\<close>

lemma set_add_nonempty: "set_add x xs \<noteq> []"
  by (auto simp: set_add_def)

lemma status_events_append:
  "status_events u b (xs @ ys) = status_events u b xs + status_events u b ys"
  by (simp add: status_events_def)

lemma status_events_Nil: "status_events u b [] = 0"
  by (simp add: status_events_def)

lemma register_socket_map:
  "userSocketMap (fst (register_socket sid v st)) =
     (userSocketMap st)(v \<mapsto> set_add sid (sockets_of st v))"
  by (simp add: register_socket_def Let_def sockets_of_def)

lemma register_socket_events:
  "snd (register_socket sid v st) =
     (if length (set_add sid (sockets_of st v)) = 1
      then [(Everyone, OnlineStatus v True None)] else [])"
  by (simp add: register_socket_def Let_def sockets_of_def)

lemma markUserOnline_cases:
  "markUserOnline sid p st = (st, []) \<or>
   markUserOnline sid p st = register_socket sid (payload_userId p) st"
  by (simp add: markUserOnline_def Let_def)

lemma disconnect_map:
  "userSocketMap (fst (disconnect sid now st)) =
     (if truthy (socket_userId st sid)
      then (case userSocketMap st (socket_userId st sid) of
              None \<Rightarrow> userSocketMap st
            | Some s \<Rightarrow>
                if set_delete sid s = [] then (userSocketMap st)(socket_userId st sid := None)
                else (userSocketMap st)(socket_userId st sid \<mapsto> set_delete sid s))
      else userSocketMap st)"
  by (simp add: disconnect_def Let_def split: option.splits)

lemma disconnect_events:
  "snd (disconnect sid now st) =
     (if truthy (socket_userId st sid)
      then (case userSocketMap st (socket_userId st sid) of
              None \<Rightarrow> []
            | Some s \<Rightarrow>
                if set_delete sid s = []
                then [(Everyone, OnlineStatus (socket_userId st sid) False (Some now))]
                else [])
      else [])"
  by (simp add: disconnect_def Let_def split: option.splits)

lemma other_handlers_map:
  "userSocketMap (connection s st) = userSocketMap st"
  "userSocketMap (join_conversation s c st) = userSocketMap st"
  "userSocketMap (user_page s u p st) = userSocketMap st"
  "userSocketMap (user_conversation s u c a st) = userSocketMap st"
  by (simp_all add: connection_def join_conversation_def user_page_def user_conversation_def
        Let_def)

lemma register_socket_no_empty:
  "no_empty_sets st \<Longrightarrow> no_empty_sets (fst (register_socket sid v st))"
  by (simp add: no_empty_sets_def register_socket_map set_add_nonempty)

lemma markUserOnline_no_empty:
  "no_empty_sets st \<Longrightarrow> no_empty_sets (fst (markUserOnline sid p st))"
  using markUserOnline_cases [of sid p st] by (auto simp: register_socket_no_empty)

lemma disconnect_no_empty:
  "no_empty_sets st \<Longrightarrow> no_empty_sets (fst (disconnect sid now st))"
  by (auto simp: no_empty_sets_def disconnect_map split: option.splits)

lemma handle_no_empty:
  assumes "no_empty_sets st"
  shows "no_empty_sets (fst (handle e st))"
proof (cases e)
  case (RegisterUser s p)
  then show ?thesis using assms by (simp add: markUserOnline_no_empty)
next
  case (UserOnline s p)
  then show ?thesis using assms by (simp add: markUserOnline_no_empty)
next
  case (Disconnect s t)
  then show ?thesis using assms by (simp add: disconnect_no_empty)
qed (use assms in \<open>simp_all add: no_empty_sets_def other_handlers_map\<close>)

lemma step_no_empty: "no_empty_sets st \<Longrightarrow> no_empty_sets (fst (step st e))"
  by (simp add: step_eq handle_no_empty)

lemma went_offline_same: "live_count st' u = live_count st u \<Longrightarrow> went_offline st st' u = 0"
  by (auto simp: went_offline_def)

lemma came_online_same: "live_count st' u = live_count st u \<Longrightarrow> came_online st st' u = 0"
  by (auto simp: came_online_def)

lemma register_socket_offline:
  "status_events u False (snd (register_socket sid v st))
     = went_offline st (fst (register_socket sid v st)) u"
  by (auto simp: register_socket_events register_socket_map status_events_def went_offline_def
        live_count_def set_add_nonempty)

lemma markUserOnline_offline:
  "status_events u False (snd (markUserOnline sid p st))
     = went_offline st (fst (markUserOnline sid p st)) u"
proof -
  consider "markUserOnline sid p st = (st, [])"
    | "markUserOnline sid p st = register_socket sid (payload_userId p) st"
    using markUserOnline_cases by blast
  then show ?thesis
  proof cases
    case 1
    then show ?thesis by (simp add: status_events_Nil went_offline_same)
  next
    case 2
    then show ?thesis by (simp add: register_socket_offline)
  qed
qed

lemma disconnect_offline:
  assumes "no_empty_sets st"
  shows "status_events u False (snd (disconnect sid now st))
           = went_offline st (fst (disconnect sid now st)) u"
proof (cases "truthy (socket_userId st sid)")
  case False
  then show ?thesis
    by (simp add: disconnect_events disconnect_map status_events_Nil went_offline_same
          live_count_def)
next
  case True
  show ?thesis
  proof (cases "userSocketMap st (socket_userId st sid)")
    case None
    with True show ?thesis
      by (simp add: disconnect_events disconnect_map status_events_Nil went_offline_same
            live_count_def)
  next
    case (Some s)
    with assms have "s \<noteq> []" by (auto simp: no_empty_sets_def)
    with True Some show ?thesis
      by (cases "u = socket_userId st sid")
         (auto simp: disconnect_events disconnect_map status_events_def went_offline_def
            live_count_def)
  qed
qed

lemma handle_offline:
  assumes "no_empty_sets st"
  shows "status_events u False (snd (handle e st)) = went_offline st (fst (handle e st)) u"
proof (cases e)
  case (RegisterUser s p)
  then show ?thesis by (simp add: markUserOnline_offline)
next
  case (UserOnline s p)
  then show ?thesis by (simp add: markUserOnline_offline)
next
  case (Disconnect s t)
  then show ?thesis using assms by (simp add: disconnect_offline)
qed (simp_all add: status_events_Nil went_offline_same live_count_def other_handlers_map)

lemma step_offline:
  assumes "no_empty_sets st"
  shows "status_events u False (snd (step st e)) = went_offline st (fst (step st e)) u"
  using handle_offline [OF assms, of u e]
  by (simp add: step_eq status_events_Nil went_offline_same)

lemma down_crossings_Cons:
  "down_crossings u st (e # es) =
     went_offline st (fst (step st e)) u + down_crossings u (fst (step st e)) es"
  by (simp add: went_offline_def Let_def)

lemma up_crossings_Cons:
  "up_crossings u st (e # es) =
     came_online st (fst (step st e)) u + up_crossings u (fst (step st e)) es"
  by (simp add: came_online_def Let_def)

lemma init_no_empty_sets: "no_empty_sets init_server"
  by (simp add: no_empty_sets_def init_server_def)

text \<open>
  From a state without empty connection sets, the online-status events with online=false
  emitted for a user along any sequence of events are as many as the times the user's
  live-connection count goes to zero.
\<close>

theorem offline_once_per_crossing:
  "no_empty_sets st \<Longrightarrow> status_events u False (snd (run st es)) = down_crossings u st es"
proof (induction es arbitrary: st)
  case Nil
  then show ?case by (simp add: status_events_def)
next
  case (Cons e es)
  have "no_empty_sets (fst (step st e))" using Cons.prems by (rule step_no_empty)
  then have ih: "status_events u False (snd (run (fst (step st e)) es))
                  = down_crossings u (fst (step st e)) es" by (rule Cons.IH)
  show ?case
    by (simp only: snd_run_Cons status_events_append ih step_offline [OF Cons.prems]
          down_crossings_Cons)
qed

lemma register_socket_online:
  "came_online st (fst (register_socket sid v st)) u
     \<le> status_events u True (snd (register_socket sid v st))"
  by (auto simp: register_socket_events register_socket_map status_events_def came_online_def
        live_count_def sockets_of_def set_add_def split: option.splits if_splits)

lemma markUserOnline_online:
  "came_online st (fst (markUserOnline sid p st)) u
     \<le> status_events u True (snd (markUserOnline sid p st))"
proof -
  consider "markUserOnline sid p st = (st, [])"
    | "markUserOnline sid p st = register_socket sid (payload_userId p) st"
    using markUserOnline_cases by blast
  then show ?thesis
  proof cases
    case 1
    then show ?thesis by (simp add: came_online_same)
  next
    case 2
    then show ?thesis by (simp add: register_socket_online)
  qed
qed

lemma disconnect_online:
  "came_online st (fst (disconnect sid now st)) u = 0"
  by (auto simp: disconnect_map came_online_def live_count_def set_delete_def
        split: option.splits)

lemma handle_online:
  "came_online st (fst (handle e st)) u \<le> status_events u True (snd (handle e st))"
proof (cases e)
  case (RegisterUser s p)
  then show ?thesis by (simp add: markUserOnline_online)
next
  case (UserOnline s p)
  then show ?thesis by (simp add: markUserOnline_online)
next
  case (Disconnect s t)
  then show ?thesis by (simp add: disconnect_online)
qed (simp_all add: came_online_same live_count_def other_handlers_map)

lemma step_online:
  "came_online st (fst (step st e)) u \<le> status_events u True (snd (step st e))"
  using handle_online [of st e u]
  by (simp add: step_eq came_online_same)

text \<open>
  Every time a user's live-connection count leaves zero, an online-status event with
  online=true is emitted for the user.
\<close>

theorem online_at_least_once_per_crossing:
  "up_crossings u st es \<le> status_events u True (snd (run st es))"
proof (induction es arbitrary: st)
  case Nil
  then show ?case by simp
next
  case (Cons e es)
  have "status_events u True (snd (run st (e # es))) =
          status_events u True (snd (step st e))
          + status_events u True (snd (run (fst (step st e)) es))"
    by (simp only: snd_run_Cons status_events_append)
  moreover have "up_crossings u st (e # es) =
          came_online st (fst (step st e)) u + up_crossings u (fst (step st e)) es"
    by (rule up_crossings_Cons)
  ultimately show ?case
    using Cons.IH [of "fst (step st e)"] step_online [of st e u] by linarith
qed


lemma live_count_sockets_of: "live_count st u = length (sockets_of st u)"
  by (simp add: live_count_def sockets_of_def split: option.splits)

lemma length_set_add_one: "length (set_add x xs) = Suc 0 \<longleftrightarrow> xs = [] \<or> xs = [x]"
  by (cases xs) (auto simp: set_add_def)

lemma register_socket_online_exact:
  "status_events u True (snd (register_socket sid v st)) =
     came_online st (fst (register_socket sid v st)) u
     + (if v = u \<and> sockets_of st u = [sid] then 1 else 0)"
proof (cases "v = u")
  case False
  then show ?thesis
    by (simp add: register_socket_events status_events_def came_online_same live_count_def
          register_socket_map)
next
  case True
  have after: "sockets_of (fst (register_socket sid u st)) u = set_add sid (sockets_of st u)"
    by (simp add: sockets_of_def register_socket_map)
  show ?thesis
  proof (cases "sockets_of st u = []")
    case e: True
    with True show ?thesis
      by (simp add: register_socket_events status_events_def came_online_def
            live_count_sockets_of after set_add_def)
  next
    case ne: False
    with True show ?thesis
      by (auto simp: register_socket_events status_events_def came_online_def
            live_count_sockets_of after length_set_add_one)
  qed
qed

lemma markUserOnline_accepted:
  "markUserOnline sid p st =
     (if accepted p then register_socket sid (payload_userId p) st else (st, []))"
  by (auto simp: markUserOnline_def accepted_def Let_def)

lemma markUserOnline_online_exact:
  "status_events u True (snd (markUserOnline sid p st)) =
     came_online st (fst (markUserOnline sid p st)) u
     + (if accepted p \<and> payload_userId p = u \<and> sockets_of st u = [sid] then 1 else 0)"
  by (simp add: markUserOnline_accepted register_socket_online_exact status_events_Nil
        came_online_same)

lemma status_events_single:
  "status_events u b [(Everyone, OnlineStatus v b' t)] = (if v = u \<and> b' = b then 1 else 0)"
  by (simp add: status_events_def)

lemma disconnect_no_online: "status_events u True (snd (disconnect sid now st)) = 0"
  by (simp add: disconnect_events status_events_Nil status_events_single split: option.splits)

lemma step_online_exact:
  "status_events u True (snd (step st e)) =
     came_online st (fst (step st e)) u + repeats_sole st e u"
proof (cases "is_connection e = (socket_of e \<in> set (sockets st))")
  case True
  then have "step st e = (st, [])" by (simp add: step_eq)
  moreover from True have "repeats_sole st e u = 0"
    by (cases e) (auto simp: repeats_sole_def is_connection_def)
  ultimately show ?thesis by (simp add: status_events_Nil came_online_same)
next
  case False
  then have st: "step st e = handle e st" by (simp add: step_eq)
  show ?thesis
  proof (cases e)
    case (RegisterUser s p)
    with st have eq: "step st e = markUserOnline s p st" by simp
    from False RegisterUser have "s \<in> set (sockets st)" by (simp add: is_connection_def)
    then have rs: "repeats_sole st e u =
        (if accepted p \<and> payload_userId p = u \<and> sockets_of st u = [s] then 1 else 0)"
      using RegisterUser by (simp add: repeats_sole_def)
    show ?thesis by (simp only: eq markUserOnline_online_exact rs)
  next
    case (UserOnline s p)
    with st have eq: "step st e = markUserOnline s p st" by simp
    from False UserOnline have "s \<in> set (sockets st)" by (simp add: is_connection_def)
    then have rs: "repeats_sole st e u =
        (if accepted p \<and> payload_userId p = u \<and> sockets_of st u = [s] then 1 else 0)"
      using UserOnline by (simp add: repeats_sole_def)
    show ?thesis by (simp only: eq markUserOnline_online_exact rs)
  next
    case (Disconnect s t)
    with st have eq: "step st e = disconnect s t st" by simp
    from Disconnect have rs: "repeats_sole st e u = 0" by (simp add: repeats_sole_def)
    show ?thesis by (simp only: eq disconnect_no_online disconnect_online rs)
  next
    case (Connection s)
    with st have eq: "step st e = (connection s st, [])" by simp
    from Connection have rs: "repeats_sole st e u = 0" by (simp add: repeats_sole_def)
    have "came_online st (connection s st) u = 0"
      by (simp add: came_online_same live_count_def other_handlers_map)
    then show ?thesis by (simp add: eq status_events_Nil rs)
  next
    case (JoinConversation s c)
    with st have eq: "step st e = (join_conversation s c st, [])" by simp
    from JoinConversation have rs: "repeats_sole st e u = 0" by (simp add: repeats_sole_def)
    have "came_online st (join_conversation s c st) u = 0"
      by (simp add: came_online_same live_count_def other_handlers_map)
    then show ?thesis by (simp add: eq status_events_Nil rs)
  next
    case (UserPage s v p)
    with st have eq: "step st e = (user_page s v p st, [])" by simp
    from UserPage have rs: "repeats_sole st e u = 0" by (simp add: repeats_sole_def)
    have "came_online st (user_page s v p st) u = 0"
      by (simp add: came_online_same live_count_def other_handlers_map)
    then show ?thesis by (simp add: eq status_events_Nil rs)
  next
    case (UserConversation s v c a)
    with st have eq: "step st e = (user_conversation s v c a st, [])" by simp
    from UserConversation have rs: "repeats_sole st e u = 0" by (simp add: repeats_sole_def)
    have "came_online st (user_conversation s v c a st) u = 0"
      by (simp add: came_online_same live_count_def other_handlers_map)
    then show ?thesis by (simp add: eq status_events_Nil rs)
  qed
qed

text \<open>
  The online-status events with online=true emitted for a user are the crossings from zero
  and, in addition, one for every accepted registration by which the user's only
  connection registers the user again.
\<close>

theorem online_events_exact:
  "status_events u True (snd (run st es)) = up_crossings u st es + sole_reregistrations u st es"
proof (induction es arbitrary: st)
  case Nil
  then show ?case by (simp add: status_events_Nil)
next
  case (Cons e es)
  have "status_events u True (snd (run st (e # es))) =
          status_events u True (snd (step st e))
          + status_events u True (snd (run (fst (step st e)) es))"
    by (simp only: snd_run_Cons status_events_append)
  moreover have "up_crossings u st (e # es) =
          came_online st (fst (step st e)) u + up_crossings u (fst (step st e)) es"
    by (rule up_crossings_Cons)
  moreover have "sole_reregistrations u st (e # es) =
          repeats_sole st e u + sole_reregistrations u (fst (step st e)) es"
    by simp
  ultimately show ?case
    using Cons.IH [of "fst (step st e)"] step_online_exact [of u st e] by linarith
qed

text \<open>
  C4. One connection registers the same user twice (\<^verbatim>\<open>registerUser\<close>, then
  \<^verbatim>\<open>user-online\<close>). The user's live-connection count crosses from 0 to 1 once, yet
  two online-status events with online=true are emitted: the handler tests the size of the
  set after the insertion, and the size is 1 both times. This is the only way the events
  and the crossings differ, see \<open>online_events_exact\<close> and
  \<open>offline_once_per_crossing\<close>.
\<close>

theorem C4_reregistration_emits_online_twice:
  "up_crossings (Str ''u1'') init_server
     [Connection ''s1'', RegisterUser ''s1'' (Prim (Str ''u1'')),
      UserOnline ''s1'' (Prim (Str ''u1''))] = 1
   \<and> status_events (Str ''u1'') True
       (snd (run init_server
          [Connection ''s1'', RegisterUser ''s1'' (Prim (Str ''u1'')),
           UserOnline ''s1'' (Prim (Str ''u1''))])) = 2"
  by code_simp

section \<open>One presence entry per connection\<close>

lemma set_set_add: "set (set_add x xs) = insert x (set xs)"
  by (auto simp: set_add_def)

lemma set_set_delete: "set (set_delete x xs) = set xs - {x}"
  by (auto simp: set_delete_def)

lemma register_socket_sockets_of:
  "sockets_of (fst (register_socket sid v st)) u =
     (if u = v then set_add sid (sockets_of st v) else sockets_of st u)"
  by (simp add: register_socket_def Let_def sockets_of_def)

lemma register_socket_fields:
  "socket_userId (fst (register_socket sid v st)) = (socket_userId st)(sid := v)"
  "sockets (fst (register_socket sid v st)) = sockets st"
  by (simp_all add: register_socket_def Let_def)

lemma register_socket_owned:
  assumes "owned st" "sid \<in> set (sockets st)" "truthy v"
    and "socket_userId st sid = Undefined \<or> socket_userId st sid = v"
  shows "owned (fst (register_socket sid v st))"
  unfolding owned_def
proof (intro allI impI)
  fix u s
  assume mem: "s \<in> set (sockets_of (fst (register_socket sid v st)) u)"
  show "socket_userId (fst (register_socket sid v st)) s = u
        \<and> s \<in> set (sockets (fst (register_socket sid v st))) \<and> truthy u"
  proof (cases "u = v")
    case True
    with mem have "s = sid \<or> s \<in> set (sockets_of st v)"
      by (simp add: register_socket_sockets_of set_set_add)
    with assms True show ?thesis
      by (auto simp: register_socket_fields owned_def)
  next
    case False
    with mem have old: "s \<in> set (sockets_of st u)"
      by (simp add: register_socket_sockets_of)
    with assms(1) have o: "socket_userId st s = u" "s \<in> set (sockets st)" "truthy u"
      by (auto simp: owned_def)
    have "s \<noteq> sid"
    proof
      assume "s = sid"
      with o assms(4) False show False by auto
    qed
    with o show ?thesis by (simp add: register_socket_fields)
  qed
qed

lemma disconnect_sockets_of:
  "sockets_of (fst (disconnect sid now st)) u =
     (if truthy (socket_userId st sid) \<and> u = socket_userId st sid
      then set_delete sid (sockets_of st u) else sockets_of st u)"
  by (auto simp: disconnect_def Let_def sockets_of_def set_delete_def split: option.splits)

lemma disconnect_fields:
  "socket_userId (fst (disconnect sid now st)) = socket_userId st"
  "sockets (fst (disconnect sid now st)) = set_delete sid (sockets st)"
  by (simp_all add: disconnect_def Let_def split: option.splits)

lemma disconnect_owned:
  assumes "owned st"
  shows "owned (fst (disconnect sid now st))"
  unfolding owned_def
proof (intro allI impI)
  fix u s
  assume mem: "s \<in> set (sockets_of (fst (disconnect sid now st)) u)"
  then have old: "s \<in> set (sockets_of st u)"
    by (auto simp: disconnect_sockets_of set_set_delete split: if_splits)
  with assms have o: "socket_userId st s = u" "s \<in> set (sockets st)" "truthy u"
    by (auto simp: owned_def)
  have "s \<noteq> sid"
  proof
    assume "s = sid"
    with o mem show False by (simp add: disconnect_sockets_of set_set_delete)
  qed
  with o show "socket_userId (fst (disconnect sid now st)) s = u
        \<and> s \<in> set (sockets (fst (disconnect sid now st))) \<and> truthy u"
    by (simp add: disconnect_fields set_set_delete)
qed

lemma connection_owned:
  assumes "owned st" "sid \<notin> set (sockets st)"
  shows "owned (connection sid st)"
  using assms
  by (auto simp: owned_def connection_def sockets_of_def set_set_add)

lemma markUserOnline_owned:
  assumes "owned st" "s \<in> set (sockets st)"
    and "accepted p \<longrightarrow> socket_userId st s = Undefined \<or> socket_userId st s = payload_userId p"
  shows "owned (fst (markUserOnline s p st))"
proof (cases "accepted p")
  case True
  with assms show ?thesis
    by (simp add: markUserOnline_accepted register_socket_owned accepted_def)
next
  case False
  with assms(1) show ?thesis by (simp add: markUserOnline_accepted)
qed

lemma handle_owned:
  assumes "owned st" "keeps_identity st e"
    and "is_connection e \<noteq> (socket_of e \<in> set (sockets st))"
  shows "owned (fst (handle e st))"
proof (cases e)
  case (Connection s)
  with assms(3) have "s \<notin> set (sockets st)" by (simp add: is_connection_def)
  with assms(1) have "owned (connection s st)" by (rule connection_owned)
  with Connection show ?thesis by simp
next
  case (RegisterUser s p)
  with assms(3) have c: "s \<in> set (sockets st)" by (simp add: is_connection_def)
  from assms(2) RegisterUser
  have "accepted p \<longrightarrow> socket_userId st s = Undefined \<or> socket_userId st s = payload_userId p"
    by (auto simp: keeps_identity_def)
  with assms(1) c have "owned (fst (markUserOnline s p st))" by (rule markUserOnline_owned)
  with RegisterUser show ?thesis by simp
next
  case (UserOnline s p)
  with assms(3) have c: "s \<in> set (sockets st)" by (simp add: is_connection_def)
  from assms(2) UserOnline
  have "accepted p \<longrightarrow> socket_userId st s = Undefined \<or> socket_userId st s = payload_userId p"
    by (auto simp: keeps_identity_def)
  with assms(1) c have "owned (fst (markUserOnline s p st))" by (rule markUserOnline_owned)
  with UserOnline show ?thesis by simp
next
  case (Disconnect s t)
  from assms(1) have "owned (fst (disconnect s t st))" by (rule disconnect_owned)
  with Disconnect show ?thesis by simp
next
  case (JoinConversation s c)
  from assms(1) have "owned (join_conversation s c st)"
    by (simp add: owned_def join_conversation_def sockets_of_def)
  with JoinConversation show ?thesis by simp
next
  case (UserPage s v p)
  from assms(1) have "owned (user_page s v p st)"
    by (simp add: owned_def user_page_def sockets_of_def Let_def)
  with UserPage show ?thesis by simp
next
  case (UserConversation s v c a)
  from assms(1) have "owned (user_conversation s v c a st)"
    by (simp add: owned_def user_conversation_def sockets_of_def Let_def)
  with UserConversation show ?thesis by simp
qed

lemma step_owned:
  assumes "owned st" "keeps_identity st e"
  shows "owned (fst (step st e))"
proof (cases "is_connection e = (socket_of e \<in> set (sockets st))")
  case True
  then show ?thesis using assms(1) by (simp add: step_eq)
next
  case False
  with assms have "owned (fst (handle e st))" by (rule handle_owned)
  with False show ?thesis by (simp add: step_eq)
qed

lemma run_owned:
  "owned st \<Longrightarrow> all_keep_identity st es \<Longrightarrow> owned (fst (run st es))"
proof (induction es arbitrary: st)
  case Nil
  then show ?case by simp
next
  case (Cons e es)
  from Cons.prems have "owned (fst (step st e))" by (simp add: step_owned)
  moreover from Cons.prems have "all_keep_identity (fst (step st e)) es" by simp
  ultimately have "owned (fst (run (fst (step st e)) es))" by (rule Cons.IH)
  then show ?case by (simp only: fst_run_Cons)
qed

text \<open>
  As long as no socket registers under a user id other than the one it has, a connection
  id is in the connection set of at most one user.
\<close>

theorem one_entry_per_connection:
  assumes "all_keep_identity init_server es"
    and "s \<in> set (sockets_of (fst (run init_server es)) u)"
    and "s \<in> set (sockets_of (fst (run init_server es)) u')"
  shows "u = u'"
proof -
  have "owned init_server" by (simp add: owned_def init_server_def sockets_of_def)
  then have "owned (fst (run init_server es))" using assms(1) by (rule run_owned)
  with assms(2,3) show ?thesis by (auto simp: owned_def)
qed

text \<open>
  C8. A connection that registers as one user and then as another stays in the first
  user's connection set: it is in two presence entries, and its disconnect cleans only the
  second. Without such a registration the entries are disjoint, see
  \<open>one_entry_per_connection\<close>.
\<close>

theorem C8_reregistration_under_other_user:
  "userSocketMap
     (fst (run init_server
        [Connection ''s1'', RegisterUser ''s1'' (Prim (Str ''u1'')),
         RegisterUser ''s1'' (Prim (Str ''u2''))])) (Str ''u1'') = Some [''s1'']
   \<and> userSocketMap
     (fst (run init_server
        [Connection ''s1'', RegisterUser ''s1'' (Prim (Str ''u1'')),
         RegisterUser ''s1'' (Prim (Str ''u2''))])) (Str ''u2'') = Some [''s1'']
   \<and> userSocketMap
     (fst (run init_server
        [Connection ''s1'', RegisterUser ''s1'' (Prim (Str ''u1'')),
         RegisterUser ''s1'' (Prim (Str ''u2'')), Disconnect ''s1'' 1000])) (Str ''u1'')
       = Some [''s1'']"
  by code_simp

section \<open>Conversation router\<close>

lemma fetch_after_insert [simp]:
  "fetch_participants env (db\<lparr>messages := ms\<rparr>) conv = fetch_participants env db conv"
  by (simp add: fetch_participants_def)

text \<open>When \<^verbatim>\<open>sendMessage\<close> gets as far as the relay, and what it does then.\<close>

lemma sendMessage_Sent:
  "sr_outcome (sendMessage sid sender conv content env st db) = Sent \<longleftrightarrow>
     truthy sender \<and> truthy conv \<and> truthy content \<and> se_insert env = NoFault
     \<and> fetch_participants env db conv \<noteq> None"
  by (cases "se_insert env"; cases "fetch_participants env db conv")
     (simp_all add: sendMessage_def Let_def)

lemma sendMessage_ok:
  assumes "sr_outcome (sendMessage sid sender conv content env st db) = Sent"
    and "fetch_participants env db conv = Some convo"
  shows "sendMessage sid sender conv content env st db =
           \<lparr>sr_outcome = Sent,
            sr_store = db\<lparr>messages := messages db @ [new_message env sender conv content]\<rparr>,
            sr_emitted =
              (Room conv, ReceiveMessage (new_message env sender conv content))
              # (if recipient convo sender \<noteq> sender
                 then map (\<lambda>s. (Room (Str s), ReceiveMessage (new_message env sender conv content)))
                        (sockets_of st (recipient convo sender))
                 else []),
            sr_push =
              (if truthy (recipient convo sender) \<and> recipient convo sender \<noteq> sender
                  \<and> shouldSendNotification st sid (recipient convo sender) conv
               then Some (compose_push
                            (db\<lparr>messages := messages db @ [new_message env sender conv content]\<rparr>)
                            (new_message env sender conv content) (recipient convo sender)
                            sender conv content)
               else None)\<rparr>"
proof -
  from assms(1) have "truthy sender" "truthy conv" "truthy content" "se_insert env = NoFault"
    by (simp_all add: sendMessage_Sent)
  with assms(2) show ?thesis
    by (cases "userSocketMap st (recipient convo sender)")
       (simp_all add: sendMessage_def Let_def sockets_of_def)
qed

lemma sendMessage_emitted:
  assumes "sr_outcome (sendMessage sid sender conv content env st db) = Sent"
    and "fetch_participants env db conv = Some convo"
  shows "sr_emitted (sendMessage sid sender conv content env st db) =
           (Room conv, ReceiveMessage (new_message env sender conv content))
           # (if recipient convo sender \<noteq> sender
              then map (\<lambda>s. (Room (Str s), ReceiveMessage (new_message env sender conv content)))
                     (sockets_of st (recipient convo sender))
              else [])"
  by (simp add: sendMessage_ok [OF assms])

lemma sendMessage_push:
  assumes "sr_outcome (sendMessage sid sender conv content env st db) = Sent"
    and "fetch_participants env db conv = Some convo"
  shows "sr_push (sendMessage sid sender conv content env st db) \<noteq> None \<longleftrightarrow>
           truthy (recipient convo sender) \<and> recipient convo sender \<noteq> sender
           \<and> shouldSendNotification st sid (recipient convo sender) conv"
  by (simp add: sendMessage_ok [OF assms])

text \<open>
  What the handler does by design: it suppresses the push when the record it reads for the
  recipient has the chats page and the conversation, and it sends the push when the
  recorded page is another one, whatever the active conversation.
\<close>

lemma no_push_for_record_read:
  assumes "sr_outcome (sendMessage sid sender conv content env st db) = Sent"
    and "fetch_participants env db conv = Some convo"
    and "userSocketMap st (recipient convo sender) \<noteq> None"
    and "page (get_or_create (userActivity st sid) (recipient convo sender)) = Str ''chats''"
    and "activeConversation (get_or_create (userActivity st sid) (recipient convo sender)) = conv"
  shows "sr_push (sendMessage sid sender conv content env st db) = None"
proof -
  have "\<not> shouldSendNotification st sid (recipient convo sender) conv"
    using assms(3-5) by (simp add: shouldSendNotification_def)
  with sendMessage_push [OF assms(1,2)] show ?thesis by blast
qed

lemma push_when_not_on_chats_page:
  "userSocketMap profile_server (Str ''u2'') = Some [''s2'']
   \<and> activeConversation (get_or_create (userActivity profile_server ''s1'') (Str ''u2''))
       = Str ''c1''
   \<and> activeConversation (get_or_create (userActivity profile_server ''s2'') (Str ''u2''))
       = Str ''c1''
   \<and> sr_outcome (sendMessage ''s1'' (Str ''u1'') (Str ''c1'') (Str ''hello'') demo_env
        profile_server demo_store) = Sent
   \<and> shouldSendNotification profile_server ''s1'' (Str ''u2'') (Str ''c1'')
   \<and> sr_push (sendMessage ''s1'' (Str ''u1'') (Str ''c1'') (Str ''hello'') demo_env
        profile_server demo_store) \<noteq> None"
  by code_simp

text \<open>
  C1. User \<open>u2\<close> is online through socket \<open>s2\<close>, and the activity it has reported
  there is the chats page with conversation \<open>c1\<close> open. User \<open>u1\<close> sends a message
  in \<open>c1\<close> through socket \<open>s1\<close>. The message is emitted to the room and to \<open>s2\<close>,
  but the push-warranted condition is true and the push is dispatched: the handler looks
  the recipient up in the activity map of the sender's socket, where the recipient's report
  has never arrived.
\<close>

theorem C1_push_sent_to_reader_of_conversation:
  "userSocketMap reading_server (Str ''u2'') = Some [''s2'']
   \<and> socket_userId reading_server ''s2'' = Str ''u2''
   \<and> page (get_or_create (userActivity reading_server ''s2'') (Str ''u2'')) = Str ''chats''
   \<and> activeConversation (get_or_create (userActivity reading_server ''s2'') (Str ''u2''))
       = Str ''c1''
   \<and> sr_outcome (sendMessage ''s1'' (Str ''u1'') (Str ''c1'') (Str ''hello'') demo_env
        reading_server demo_store) = Sent
   \<and> sr_emitted (sendMessage ''s1'' (Str ''u1'') (Str ''c1'') (Str ''hello'') demo_env
        reading_server demo_store) =
       [(Room (Str ''c1''),
         ReceiveMessage (new_message demo_env (Str ''u1'') (Str ''c1'') (Str ''hello''))),
        (Room (Str ''s2''),
         ReceiveMessage (new_message demo_env (Str ''u1'') (Str ''c1'') (Str ''hello'')))]
   \<and> shouldSendNotification reading_server ''s1'' (Str ''u2'') (Str ''c1'')
   \<and> (case sr_push (sendMessage ''s1'' (Str ''u1'') (Str ''c1'') (Str ''hello'') demo_env
                reading_server demo_store) of
        None \<Rightarrow> False
      | Some call \<Rightarrow> pc_userId call = Str ''u2'')"
  by code_simp

theorem C1_push_sent_to_reader_of_conversation_witness:
  "shouldSendNotification reading_server ''s1'' (Str ''u2'') (Str ''c1'')
   \<and> activeConversation (get_or_create (userActivity reading_server ''s2'') (Str ''u2''))
       = Str ''c1''"
  using C1_push_sent_to_reader_of_conversation by simp

text \<open>
  A page report changes the activity map of the socket it arrives on, and of no other
  socket.
\<close>

lemma user_page_same_socket:
  "page (get_or_create (userActivity (user_page sid u p st) sid) u) = p"
  by (simp add: user_page_def Let_def get_or_create_def)

lemma user_page_other_socket:
  "sid' \<noteq> sid \<Longrightarrow> userActivity (user_page sid u p st) sid' = userActivity st sid'"
  by (simp add: user_page_def Let_def)

lemma user_conversation_other_socket:
  "sid' \<noteq> sid \<Longrightarrow>
     userActivity (user_conversation sid u c a st) sid' = userActivity st sid'"
  by (simp add: user_conversation_def Let_def)

text \<open>
  C2. User \<open>u2\<close> reports the chats page (and conversation \<open>c1\<close> as open) on its own
  socket \<open>s2\<close>. The handler of a later \<^verbatim>\<open>sendMessage\<close> on the sender's socket \<open>s1\<close>
  reads the activity map of \<open>s1\<close>, finds no entry for \<open>u2\<close> and sees an undefined page;
  the push is dispatched although \<open>u2\<close> reported to be reading the conversation.
\<close>

theorem C2_page_report_not_seen_by_other_connection:
  "page (get_or_create (userActivity reading_server ''s2'') (Str ''u2'')) = Str ''chats''
   \<and> page (get_or_create (userActivity reading_server ''s1'') (Str ''u2'')) = Undefined
   \<and> userActivity reading_server ''s1'' (Str ''u2'') = None
   \<and> sr_push (sendMessage ''s1'' (Str ''u1'') (Str ''c1'') (Str ''hello'') demo_env
        reading_server demo_store) \<noteq> None"
  by code_simp

theorem C2_page_report_not_seen_by_other_connection_witness:
  "page (get_or_create (userActivity reading_server ''s1'') (Str ''u2'')) \<noteq> Str ''chats''
   \<and> sr_push (sendMessage ''s1'' (Str ''u1'') (Str ''c1'') (Str ''hello'') demo_env
        reading_server demo_store) \<noteq> None"
  using C2_page_report_not_seen_by_other_connection by simp

section \<open>Live delivery\<close>

lemma count_distinct:
  "distinct xs \<Longrightarrow> length (filter (\<lambda>s. s = c) xs) = (if c \<in> set xs then 1 else 0)"
  by (induction xs) auto

lemma received_Cons:
  "received st c (e # out) =
     (if reaches st c (fst e) \<and> is_receive (snd e) then 1 else 0) + received st c out"
  by (simp add: received_def)

lemma received_direct:
  "received st c (map (\<lambda>s. (Room (Str s), ReceiveMessage m)) socks)
     = length (filter (\<lambda>s. in_room st c (Str s)) socks)"
  by (induction socks) (auto simp: received_def)

lemma in_own_room:
  assumes "\<forall>s \<in> set socks. s \<noteq> c \<longrightarrow> Str s \<notin> set (joined st c)"
  shows "filter (\<lambda>s. in_room st c (Str s)) socks
           = (if c \<in> set (sockets st) then filter (\<lambda>s. s = c) socks else [])"
  using assms by (induction socks) (auto simp: in_room_def)

text \<open>
  C3 (as amended). After a \<^verbatim>\<open>sendMessage\<close> that gets as far as the relay, a connection
  receives \<^verbatim>\<open>receiveMessage\<close> once if it is subscribed to the conversation room, and
  once more if it is a live connection of the recipient and the recipient is not the
  sender. (The recipient's connection set is duplicate free, and the connection has joined no
  room named after another connection of the recipient.)
\<close>

theorem C3_deliveries_per_connection:
  assumes "sr_outcome (sendMessage sid sender conv content env st db) = Sent"
    and "fetch_participants env db conv = Some convo"
    and "distinct (sockets_of st (recipient convo sender))"
    and "\<forall>s \<in> set (sockets_of st (recipient convo sender)).
           s \<noteq> c \<longrightarrow> Str s \<notin> set (joined st c)"
  shows "received st c (sr_emitted (sendMessage sid sender conv content env st db)) =
           (if in_room st c conv then 1 else 0)
           + (if recipient convo sender \<noteq> sender \<and> c \<in> set (sockets st)
                 \<and> c \<in> set (sockets_of st (recipient convo sender)) then 1 else 0)"
proof -
  let ?socks = "sockets_of st (recipient convo sender)"
  have direct: "length (filter (\<lambda>s. in_room st c (Str s)) ?socks)
                  = (if c \<in> set (sockets st) \<and> c \<in> set ?socks then 1 else 0)"
    using count_distinct [OF assms(3), of c]
    by (auto simp: in_own_room [OF assms(4)] filter_empty_conv)
  show ?thesis
    by (simp add: sendMessage_emitted [OF assms(1,2)] received_Cons received_direct direct)
       (simp add: received_def)
qed

theorem C3_deliveries_per_connection_witness:
  "sr_outcome (sendMessage ''s1'' (Str ''u1'') (Str ''c1'') (Str ''hello'') demo_env
      reading_server demo_store) = Sent
   \<and> distinct (sockets_of reading_server (Str ''u2''))
   \<and> in_room reading_server ''s2'' (Str ''c1'')
   \<and> ''s2'' \<in> set (sockets_of reading_server (Str ''u2''))
   \<and> received reading_server ''s2''
       (sr_emitted (sendMessage ''s1'' (Str ''u1'') (Str ''c1'') (Str ''hello'') demo_env
          reading_server demo_store)) = 1 + 1"
proof -
  have r: "recipient demo_convo (Str ''u1'') = Str ''u2''" by code_simp
  have h1: "sr_outcome (sendMessage ''s1'' (Str ''u1'') (Str ''c1'') (Str ''hello'') demo_env
              reading_server demo_store) = Sent" by code_simp
  have h2: "fetch_participants demo_env demo_store (Str ''c1'') = Some demo_convo" by code_simp
  have s: "sockets_of reading_server (Str ''u2'') = [''s2'']" by code_simp
  have h3: "distinct (sockets_of reading_server (recipient demo_convo (Str ''u1'')))"
    by (simp add: r s)
  have h4: "\<forall>s \<in> set (sockets_of reading_server (recipient demo_convo (Str ''u1''))).
              s \<noteq> ''s2'' \<longrightarrow> Str s \<notin> set (joined reading_server ''s2'')"
    by (simp add: r s)
  have m: "in_room reading_server ''s2'' (Str ''c1'')" by code_simp
  have c: "''s2'' \<in> set (sockets reading_server)" by code_simp
  from C3_deliveries_per_connection [OF h1 h2 h3 h4] h1 m c show ?thesis
    by (simp add: r s)
qed

text \<open>
  The property as the specification states it fails: socket \<open>s2\<close> is subscribed to the
  room of \<open>c1\<close> and is a connection of the recipient; it receives the message twice.
\<close>

theorem C3_counterexample:
  "in_room reading_server ''s2'' (Str ''c1'')
   \<and> sr_outcome (sendMessage ''s1'' (Str ''u1'') (Str ''c1'') (Str ''hello'') demo_env
        reading_server demo_store) = Sent
   \<and> received reading_server ''s2''
       (sr_emitted (sendMessage ''s1'' (Str ''u1'') (Str ''c1'') (Str ''hello'') demo_env
          reading_server demo_store)) = 2"
  by code_simp

section \<open>Read receipts\<close>

lemma no_unread_after_mark: "filter (unread_for c r) (mark_rows c r now ms) = []"
  by (induction ms) (simp_all add: mark_rows_def unread_for_def)

lemma updated_after_mark: "updated_rows c r (mark_rows c r now ms) = []"
  by (simp add: updated_rows_def no_unread_after_mark)

lemma mark_rows_idem: "mark_rows c r now' (mark_rows c r now ms) = mark_rows c r now ms"
  by (induction ms) (simp_all add: mark_rows_def unread_for_def)

lemma markAsRead_store:
  "re_update e = NoFault \<Longrightarrow>
     rr_store (markAsRead c r e st db) = db\<lparr>messages := mark_rows c r (re_now e) (messages db)\<rparr>"
  by (simp add: markAsRead_def Let_def)

lemma markAsRead_updated:
  "re_update e = NoFault \<Longrightarrow> rr_updated (markAsRead c r e st db) = updated_rows c r (messages db)"
  by (simp add: markAsRead_def Let_def)

lemma unread_count_after:
  "re_update e = NoFault \<Longrightarrow> unread_count (rr_store (markAsRead c r e st db)) c r = 0"
  by (simp add: markAsRead_store unread_count_def no_unread_after_mark)

text \<open>The second of two calls in a row leaves the store as the first call left it.\<close>

lemma markAsRead_store_idem:
  assumes "re_update e1 = NoFault" "re_update e2 = NoFault"
  shows "rr_store (markAsRead c r e2 st' (rr_store (markAsRead c r e1 st db)))
           = rr_store (markAsRead c r e1 st db)"
  using assms by (simp add: markAsRead_store mark_rows_idem)

lemma markAsRead_room_event:
  assumes "re_update e = NoFault" "re_count e = NoFault"
  shows "(Room c, MessagesSeen c r (map fst (rr_updated (markAsRead c r e st db)))
                    (unread_count (rr_store (markAsRead c r e st db)) c r))
           \<in> set (rr_emitted (markAsRead c r e st db))"
  using assms by (simp add: markAsRead_def Let_def)

lemma markAsRead_nothing_to_update:
  assumes "re_update e = NoFault" "re_count e = NoFault" "updated_rows c r (messages db) = []"
  shows "rr_emitted (markAsRead c r e st db) =
           [(Room c, MessagesSeen c r [] (unread_count (rr_store (markAsRead c r e st db)) c r))]"
  using assms by (simp add: markAsRead_def Let_def)

text \<open>
  C5. \<^verbatim>\<open>markAsRead\<close> is called twice in a row for the same conversation and reader,
  and the store answers both times. The second call updates no message; the first call
  emits a \<^verbatim>\<open>messagesSeen\<close> event to the conversation room with the ids it updated,
  the second call emits one with no ids; each event carries the number of messages that
  are unread in the store after its call, and the two numbers are equal.
\<close>

theorem C5_markAsRead_twice_in_a_row:
  assumes "re_update e1 = NoFault" "re_count e1 = NoFault"
    and "re_update e2 = NoFault" "re_count e2 = NoFault"
  shows "rr_updated (markAsRead c r e2 st (rr_store (markAsRead c r e1 st db))) = []
    \<and> (Room c, MessagesSeen c r (map fst (rr_updated (markAsRead c r e1 st db)))
                    (unread_count (rr_store (markAsRead c r e1 st db)) c r))
         \<in> set (rr_emitted (markAsRead c r e1 st db))
    \<and> rr_emitted (markAsRead c r e2 st (rr_store (markAsRead c r e1 st db))) =
         [(Room c, MessagesSeen c r []
             (unread_count
                (rr_store (markAsRead c r e2 st (rr_store (markAsRead c r e1 st db)))) c r))]
    \<and> unread_count (rr_store (markAsRead c r e1 st db)) c r
        = unread_count
            (rr_store (markAsRead c r e2 st (rr_store (markAsRead c r e1 st db)))) c r"
proof -
  let ?db1 = "rr_store (markAsRead c r e1 st db)"
  have none: "updated_rows c r (messages ?db1) = []"
    using assms(1) by (simp add: markAsRead_store updated_after_mark)
  have a: "rr_updated (markAsRead c r e2 st ?db1) = []"
    using assms(3) none by (simp add: markAsRead_updated)
  have b: "rr_emitted (markAsRead c r e2 st ?db1) =
         [(Room c, MessagesSeen c r [] (unread_count (rr_store (markAsRead c r e2 st ?db1)) c r))]"
    using assms(3,4) none by (rule markAsRead_nothing_to_update)
  have c: "unread_count ?db1 c r = unread_count (rr_store (markAsRead c r e2 st ?db1)) c r"
    using assms(1,3) by (simp add: unread_count_after)
  from a b c markAsRead_room_event [OF assms(1,2)] show ?thesis by blast
qed

theorem C5_markAsRead_twice_in_a_row_witness:
  "re_update read_ok = NoFault \<and> re_count read_ok = NoFault
   \<and> rr_updated (markAsRead (Str ''c1'') (Str ''u2'') read_ok reading_server demo_chat)
       = [(Str ''m1'', Str ''u1'')]
   \<and> rr_updated (markAsRead (Str ''c1'') (Str ''u2'') read_ok reading_server
        (rr_store (markAsRead (Str ''c1'') (Str ''u2'') read_ok reading_server demo_chat))) = []
   \<and> (Room (Str ''c1''), MessagesSeen (Str ''c1'') (Str ''u2'') [Str ''m1''] 0)
       \<in> set (rr_emitted (markAsRead (Str ''c1'') (Str ''u2'') read_ok reading_server demo_chat))
   \<and> rr_emitted (markAsRead (Str ''c1'') (Str ''u2'') read_ok reading_server
        (rr_store (markAsRead (Str ''c1'') (Str ''u2'') read_ok reading_server demo_chat)))
       = [(Room (Str ''c1''), MessagesSeen (Str ''c1'') (Str ''u2'') [] 0)]"
proof -
  have h1: "re_update read_ok = NoFault" by code_simp
  have h2: "re_count read_ok = NoFault" by code_simp
  have v1: "rr_updated (markAsRead (Str ''c1'') (Str ''u2'') read_ok reading_server demo_chat)
              = [(Str ''m1'', Str ''u1'')]" by code_simp
  have v2: "unread_count
              (rr_store (markAsRead (Str ''c1'') (Str ''u2'') read_ok reading_server demo_chat))
              (Str ''c1'') (Str ''u2'') = 0" by code_simp
  from C5_markAsRead_twice_in_a_row
         [OF h1 h2 h1 h2, of "Str ''c1''" "Str ''u2''" reading_server demo_chat]
  show ?thesis using h1 h2 by (simp add: v1 v2)
qed

section \<open>Daily limit of weather alerts\<close>

lemma mult_le_iff_le_div:
  fixes q x d :: int
  assumes "0 < d"
  shows "q * d \<le> x \<longleftrightarrow> q \<le> x div d"
proof
  assume "q * d \<le> x"
  then have "(q * d) div d \<le> x div d" using assms by (rule zdiv_mono1)
  with assms show "q \<le> x div d" by simp
next
  assume "q \<le> x div d"
  with assms have "q * d \<le> (x div d) * d" by simp
  also have "\<dots> = x - x mod d" by (simp add: minus_mod_eq_div_mult)
  also have "\<dots> \<le> x" using assms by simp
  finally show "q * d \<le> x" .
qed

text \<open>
  On a host at a fixed distance from UTC, a time stamp is at or after the start of the
  current local day exactly when its local calendar day is the current one or a later one.
\<close>

lemma day_start: "start_of_local_day tz now \<le> t \<longleftrightarrow> local_day tz now \<le> local_day tz t"
proof -
  have pos: "0 < day_ms" by (simp add: day_ms_def)
  have eq: "start_of_local_day tz now + tz = ((now + tz) div day_ms) * day_ms"
    by (simp add: start_of_local_day_def minus_mod_eq_div_mult algebra_simps)
  have "start_of_local_day tz now \<le> t \<longleftrightarrow> start_of_local_day tz now + tz \<le> t + tz" by simp
  also have "\<dots> \<longleftrightarrow> ((now + tz) div day_ms) * day_ms \<le> t + tz" by (simp only: eq)
  also have "\<dots> \<longleftrightarrow> (now + tz) div day_ms \<le> (t + tz) div day_ms"
    using pos by (rule mult_le_iff_le_div)
  finally show ?thesis by (simp add: local_day_def)
qed

lemma sent_today_fixed_offset:
  "sent_today (start_of_local_day tz) now db u =
     length (filter (\<lambda>r. a_user_id r = u \<and> local_day tz now \<le> local_day tz (a_sent_at r))
               (weather_alerts_sent db))"
  by (simp add: sent_today_def day_start)

text \<open>The start of the day of the clock change in New York, from either side of the change.\<close>

lemma new_york_clock_change_day:
  "new_york_start_of_day 1772949600000 = 1772946000000
   \<and> new_york_start_of_day 1772971200000 = 1772946000000
   \<and> new_york_start_of_day 1773068400000 = 1773028800000"
  by (simp add: new_york_start_of_day_def start_of_local_day_def day_ms_def)

text \<open>
  C6. Whatever the time-zone rules of the host: when the store answers,
  \<^verbatim>\<open>canSendWeatherAlert\<close> allows the send exactly when fewer than three alert rows are
  logged for the user since the start of the current local day, and reports that number;
  with three rows it refuses. When the read fails (an error result or an exception) it
  allows the send and reports the count 0.
\<close>

theorem C6_canSendWeatherAlert_limit:
  "canSendWeatherAlert Returns startOfDay now db u
     = \<lparr>canSend = sent_today startOfDay now db u < 3, count = sent_today startOfDay now db u\<rparr>
   \<and> (sent_today startOfDay now db u = 3 \<longrightarrow>
        \<not> canSend (canSendWeatherAlert Returns startOfDay now db u))
   \<and> (read \<noteq> Returns \<longrightarrow>
        canSendWeatherAlert read startOfDay now db u = \<lparr>canSend = True, count = 0\<rparr>)"
  by (cases read) (simp_all add: canSendWeatherAlert_def sent_today_def Let_def)

theorem C6_canSendWeatherAlert_limit_witness:
  "sent_today (start_of_local_day 0) 100000000 demo_alerts (Str ''u1'') = 3
   \<and> \<not> canSend (canSendWeatherAlert Returns (start_of_local_day 0) 100000000 demo_alerts
          (Str ''u1''))
   \<and> canSend (canSendWeatherAlert Returns (start_of_local_day 0) 180000000 demo_alerts
        (Str ''u1''))
   \<and> canSendWeatherAlert Returns new_york_start_of_day 1772971200000 clock_change_alerts
        (Str ''u1'') = \<lparr>canSend = True, count = 2\<rparr>
   \<and> canSendWeatherAlert (ReturnsError ''permission denied'') (start_of_local_day 0) 100000000
        demo_alerts (Str ''u1'') = \<lparr>canSend = True, count = 0\<rparr>
   \<and> canSendWeatherAlert (Throws ''fetch failed'') (start_of_local_day 0) 100000000
        demo_alerts (Str ''u1'') = \<lparr>canSend = True, count = 0\<rparr>"
proof -
  have n3: "sent_today (start_of_local_day 0) 100000000 demo_alerts (Str ''u1'') = 3"
    by code_simp
  have n0: "sent_today (start_of_local_day 0) 180000000 demo_alerts (Str ''u1'') = 0"
    by code_simp
  have n2: "sent_today new_york_start_of_day 1772971200000 clock_change_alerts (Str ''u1'') = 2"
    by code_simp
  from C6_canSendWeatherAlert_limit
         [of "start_of_local_day 0" 100000000 demo_alerts "Str ''u1''" "Throws ''fetch failed''"]
       C6_canSendWeatherAlert_limit
         [of "start_of_local_day 0" 100000000 demo_alerts "Str ''u1''"
             "ReturnsError ''permission denied''"]
       C6_canSendWeatherAlert_limit
         [of "start_of_local_day 0" 180000000 demo_alerts "Str ''u1''" "Throws ''fetch failed''"]
       C6_canSendWeatherAlert_limit
         [of new_york_start_of_day 1772971200000 clock_change_alerts "Str ''u1''"
             "Throws ''fetch failed''"]
  show ?thesis by (simp add: n3 n0 n2)
qed

section \<open>Notification dispatch\<close>

text \<open>
  Persistence, token lookup and fan-out use neither the outcome of the preference check nor
  the users' metadata.
\<close>

lemma sendPushNotification_pref:
  "sendPushNotification (env\<lparr>ne_pref := x\<rparr>) p t title body data
     = sendPushNotification env p t title body data"
  by (simp add: sendPushNotification_def Let_def)

lemma fanout_pref:
  "sendPushNotificationToMultiple (env\<lparr>ne_pref := x\<rparr>) p tokens title body data
     = sendPushNotificationToMultiple env p tokens title body data"
  by (simp add: sendPushNotificationToMultiple_def sendPushNotification_pref)

lemma user_tokens_auth:
  "user_tokens (db\<lparr>auth_users := a\<rparr>) u = user_tokens db u"
  by (simp add: user_tokens_def)

lemma user_tokens_after_insert [simp]:
  "user_tokens (db\<lparr>notifications := ns\<rparr>) u = user_tokens db u"
  by (simp add: user_tokens_def)

lemma deliver_pref:
  "deliver (env\<lparr>ne_pref := x\<rparr>) (db\<lparr>auth_users := a\<rparr>) u n =
     (deliver env db u n)\<lparr>no_store := (no_store (deliver env db u n))\<lparr>auth_users := a\<rparr>\<rparr>"
  by (cases "ne_insert env"; cases "ne_tokens env")
     (simp_all add: deliver_def Let_def fanout_pref user_tokens_auth fanout_project_def
        fanout_data_def split: option.splits)

lemma deliver_stores:
  "ne_insert env = Returns \<Longrightarrow>
     notifications (no_store (deliver env db u n)) = notifications db @ [stored_row u n]"
  by (cases "ne_tokens env")
     (simp_all add: deliver_def Let_def stored_row_def split: option.splits)

lemma deliver_dispatches:
  "ne_tokens env = Returns \<Longrightarrow>
     no_dispatched (deliver env db u n) = map t_token (user_tokens db u)"
  by (cases "ne_insert env")
     (simp_all add: deliver_def Let_def sendPushNotificationToMultiple_def)

lemma unreadable_preference:
  "truthy u \<Longrightarrow> ne_pref env \<noteq> Returns \<Longrightarrow> sendNotificationToUser env db u n = deliver env db u n"
  by (cases "ne_pref env") (simp_all add: sendNotificationToUser_def notifications_disabled_def)

lemma enabled_run_delivers:
  "truthy u \<Longrightarrow>
     enabled_run env db u n =
       (deliver env db u n)\<lparr>no_store :=
          (no_store (deliver env db u n))\<lparr>auth_users := (u, Bool True) # auth_users db\<rparr>\<rparr>"
  by (simp add: enabled_run_def sendNotificationToUser_def notifications_disabled_def
        deliver_pref)

text \<open>
  C9. For a user id that is given: when the preference is read and the user's metadata has
  \<^verbatim>\<open>notifications_enabled\<close> set to false, \<^verbatim>\<open>sendNotificationToUser\<close> returns the
  skipped result, leaves the store as it is and attempts no push. When the preference
  cannot be read (error result or exception), the send has the result, the pushes and the
  stored notifications of the same send with the preference read and set to true; it
  stores the notification when the insertion goes through, and it attempts a push for
  every token of the user when the token lookup answers.
\<close>

theorem C9_preference_check:
  assumes "truthy u"
  shows "(ne_pref env = Returns \<and> map_of (auth_users db) u = Some (Bool False) \<longrightarrow>
            sendNotificationToUser env db u n =
              \<lparr>no_result = (failure ''Notifications disabled by user'')\<lparr>nr_skipped := True\<rparr>,
               no_store = db, no_dispatched = []\<rparr>)
       \<and> (ne_pref env \<noteq> Returns \<longrightarrow>
            no_result (sendNotificationToUser env db u n) = no_result (enabled_run env db u n)
            \<and> no_dispatched (sendNotificationToUser env db u n)
                = no_dispatched (enabled_run env db u n)
            \<and> notifications (no_store (sendNotificationToUser env db u n))
                = notifications (no_store (enabled_run env db u n)))
       \<and> (ne_pref env \<noteq> Returns \<and> ne_insert env = Returns \<longrightarrow>
            notifications (no_store (sendNotificationToUser env db u n))
              = notifications db @ [stored_row u n])
       \<and> (ne_pref env \<noteq> Returns \<and> ne_tokens env = Returns \<longrightarrow>
            no_dispatched (sendNotificationToUser env db u n) = map t_token (user_tokens db u))"
proof (intro conjI impI)
  assume "ne_pref env = Returns \<and> map_of (auth_users db) u = Some (Bool False)"
  with assms show "sendNotificationToUser env db u n =
      \<lparr>no_result = (failure ''Notifications disabled by user'')\<lparr>nr_skipped := True\<rparr>,
       no_store = db, no_dispatched = []\<rparr>"
    by (simp add: sendNotificationToUser_def notifications_disabled_def)
next
  assume "ne_pref env \<noteq> Returns"
  with assms have eq: "sendNotificationToUser env db u n = deliver env db u n"
    by (rule unreadable_preference)
  show "no_result (sendNotificationToUser env db u n) = no_result (enabled_run env db u n)"
    by (simp add: eq enabled_run_delivers [OF assms])
  show "no_dispatched (sendNotificationToUser env db u n)
          = no_dispatched (enabled_run env db u n)"
    by (simp add: eq enabled_run_delivers [OF assms])
  show "notifications (no_store (sendNotificationToUser env db u n))
          = notifications (no_store (enabled_run env db u n))"
    by (simp add: eq enabled_run_delivers [OF assms])
next
  assume h: "ne_pref env \<noteq> Returns \<and> ne_insert env = Returns"
  with assms have "sendNotificationToUser env db u n = deliver env db u n"
    by (simp add: unreadable_preference)
  with h show "notifications (no_store (sendNotificationToUser env db u n))
                 = notifications db @ [stored_row u n]"
    by (simp add: deliver_stores)
next
  assume h: "ne_pref env \<noteq> Returns \<and> ne_tokens env = Returns"
  with assms have "sendNotificationToUser env db u n = deliver env db u n"
    by (simp add: unreadable_preference)
  with h show "no_dispatched (sendNotificationToUser env db u n)
                 = map t_token (user_tokens db u)"
    by (simp add: deliver_dispatches)
qed

theorem C9_preference_check_witness:
  "truthy (Str ''u2'')
   \<and> map_of (auth_users demo_alerts) (Str ''u2'') = Some (Bool False)
   \<and> nr_skipped (no_result (sendNotificationToUser dead_gateway demo_alerts (Str ''u2'')
        demo_notification))
   \<and> notifications (no_store (sendNotificationToUser dead_gateway demo_alerts (Str ''u2'')
        demo_notification)) = []
   \<and> no_dispatched (sendNotificationToUser dead_gateway demo_alerts (Str ''u2'')
        demo_notification) = []
   \<and> no_dispatched (sendNotificationToUser (dead_gateway\<lparr>ne_pref := Throws ''timeout''\<rparr>)
        demo_alerts (Str ''u2'') demo_notification) = [Str ''tokC'']
   \<and> no_dispatched (sendNotificationToUser
        (dead_gateway\<lparr>ne_pref := ReturnsError ''not allowed''\<rparr>)
        demo_alerts (Str ''u2'') demo_notification) = [Str ''tokC'']
   \<and> notifications (no_store (sendNotificationToUser
        (dead_gateway\<lparr>ne_pref := ReturnsError ''not allowed''\<rparr>)
        demo_alerts (Str ''u2'') demo_notification))
       = [stored_row (Str ''u2'') demo_notification]
   \<and> nr_success (no_result (enabled_run (dead_gateway\<lparr>ne_pref := ReturnsError ''not allowed''\<rparr>)
        demo_alerts (Str ''u2'') demo_notification))
   \<and> nr_success (no_result (sendNotificationToUser
        (dead_gateway\<lparr>ne_pref := ReturnsError ''not allowed''\<rparr>)
        demo_alerts (Str ''u2'') demo_notification))"
proof -
  have t: "truthy (Str ''u2'')" by simp
  have p: "ne_pref dead_gateway = Returns" by code_simp
  have m: "map_of (auth_users demo_alerts) (Str ''u2'') = Some (Bool False)" by code_simp
  have i: "ne_insert dead_gateway = Returns" by code_simp
  have k: "ne_tokens dead_gateway = Returns" by code_simp
  have tk: "map t_token (user_tokens demo_alerts (Str ''u2'')) = [Str ''tokC'']" by code_simp
  have e: "notifications demo_alerts = []" by code_simp
  have ok: "nr_success (no_result (enabled_run
              (dead_gateway\<lparr>ne_pref := ReturnsError ''not allowed''\<rparr>)
              demo_alerts (Str ''u2'') demo_notification))" by code_simp
  note skip = C9_preference_check [OF t, of dead_gateway demo_alerts demo_notification]
  note thrown = C9_preference_check [OF t, of "dead_gateway\<lparr>ne_pref := Throws ''timeout''\<rparr>"
         demo_alerts demo_notification]
  note failed = C9_preference_check [OF t,
         of "dead_gateway\<lparr>ne_pref := ReturnsError ''not allowed''\<rparr>"
         demo_alerts demo_notification]
  have s: "sendNotificationToUser dead_gateway demo_alerts (Str ''u2'') demo_notification =
      \<lparr>no_result = (failure ''Notifications disabled by user'')\<lparr>nr_skipped := True\<rparr>,
       no_store = demo_alerts, no_dispatched = []\<rparr>"
    using skip [THEN conjunct1] p m by simp
  have d1: "no_dispatched (sendNotificationToUser (dead_gateway\<lparr>ne_pref := Throws ''timeout''\<rparr>)
        demo_alerts (Str ''u2'') demo_notification) = [Str ''tokC'']"
    using thrown [THEN conjunct2, THEN conjunct2, THEN conjunct2] k by (simp add: tk)
  have d2: "no_dispatched (sendNotificationToUser
        (dead_gateway\<lparr>ne_pref := ReturnsError ''not allowed''\<rparr>)
        demo_alerts (Str ''u2'') demo_notification) = [Str ''tokC'']"
    using failed [THEN conjunct2, THEN conjunct2, THEN conjunct2] k by (simp add: tk)
  have st: "notifications (no_store (sendNotificationToUser
        (dead_gateway\<lparr>ne_pref := ReturnsError ''not allowed''\<rparr>)
        demo_alerts (Str ''u2'') demo_notification))
       = [stored_row (Str ''u2'') demo_notification]"
    using failed [THEN conjunct2, THEN conjunct2, THEN conjunct1] i by (simp add: e)
  have r: "no_result (sendNotificationToUser
        (dead_gateway\<lparr>ne_pref := ReturnsError ''not allowed''\<rparr>)
        demo_alerts (Str ''u2'') demo_notification)
       = no_result (enabled_run (dead_gateway\<lparr>ne_pref := ReturnsError ''not allowed''\<rparr>)
        demo_alerts (Str ''u2'') demo_notification)"
    using failed [THEN conjunct2, THEN conjunct1] by simp
  show ?thesis
    by (simp only: t m s d1 d2 st r ok e simp_thms)
       (simp add: failure_def e)
qed

text \<open>The fan-out resolves for every non-empty token list.\<close>

lemma fanout_resolves:
  "tokens \<noteq> [] \<Longrightarrow> sendPushNotificationToMultiple env p tokens title body data \<noteq> None"
  by (simp add: sendPushNotificationToMultiple_def Let_def)

lemma fanout_all_rejected:
  assumes "tokens \<noteq> []"
    and "list_all (\<lambda>t. sendPushNotification env p t title body data = Rejected) tokens"
  shows "sendPushNotificationToMultiple env p tokens title body data = Some (0, length tokens)"
proof -
  from assms(2)
  have "map (\<lambda>t. sendPushNotification env p t title body data) tokens
          = replicate (length tokens) Rejected"
    by (induction tokens) simp_all
  with assms(1) show ?thesis
    by (simp add: sendPushNotificationToMultiple_def)
qed

lemma deliver_all_rejected:
  assumes "ne_tokens env = Returns" "user_tokens db u \<noteq> []" "all_rejected env db u n"
  shows "no_result (deliver env db u n) =
           \<lparr>nr_success = True, nr_error = None, nr_skipped = False, nr_limitReached = False,
            nr_sent = Some 0, nr_failed = Some (length (user_tokens db u)),
            nr_total = Some (length (user_tokens db u))\<rparr>"
proof -
  have toks: "map t_token (user_tokens db u) \<noteq> []" using assms(2) by simp
  have rej: "list_all (\<lambda>t. sendPushNotification env (fanout_project env) t (nt_title n) (nt_body n)
                (fanout_data env u n) = Rejected) (map t_token (user_tokens db u))"
    using assms(3) by (simp add: all_rejected_def list_all_iff)
  have fan: "sendPushNotificationToMultiple env (fanout_project env) (map t_token (user_tokens db u))
          (nt_title n) (nt_body n) (fanout_data env u n) = Some (0, length (user_tokens db u))"
    using fanout_all_rejected [OF toks rej] by simp
  show ?thesis
    using assms(1,2) fan
    by (cases "ne_insert env") (simp_all add: deliver_def Let_def)
qed

lemma deliver_keeps_alerts:
  "weather_alerts_sent (no_store (deliver env db u n)) = weather_alerts_sent db"
  by (cases "ne_insert env"; cases "ne_tokens env")
     (simp_all add: deliver_def Let_def split: option.splits)

text \<open>
  C10. A user id is given, notifications are not switched off, the token lookup answers
  with at least one token, and every per-token send is rejected. Then
  \<^verbatim>\<open>sendNotificationToUser\<close> returns success=true with sent=0 and failed=total. If in
  addition the daily limit allows the alert and the insertion of the log row goes through,
  \<^verbatim>\<open>sendWeatherAlert\<close> returns that success and appends the alert row to
  \<^verbatim>\<open>weather_alerts_sent\<close>.
\<close>

theorem C10_success_when_every_send_fails:
  "(truthy u \<and> \<not> notifications_disabled env db u \<and> ne_tokens env = Returns
      \<and> user_tokens db u \<noteq> [] \<and> all_rejected env db u n \<longrightarrow>
      no_result (sendNotificationToUser env db u n) =
        \<lparr>nr_success = True, nr_error = None, nr_skipped = False, nr_limitReached = False,
         nr_sent = Some 0, nr_failed = Some (length (user_tokens db u)),
         nr_total = Some (length (user_tokens db u))\<rparr>)
   \<and> (truthy u \<and> \<not> notifications_disabled (we_notify wenv) db u
      \<and> ne_tokens (we_notify wenv) = Returns
      \<and> user_tokens db u \<noteq> [] \<and> all_rejected (we_notify wenv) db u (weather_notification a)
      \<and> canSend (canSendWeatherAlert (we_read wenv) (we_startOfDay wenv) (we_now wenv) db u)
      \<and> we_record wenv = Returns \<longrightarrow>
      nr_success (no_result (sendWeatherAlert wenv db u a))
      \<and> weather_alerts_sent (no_store (sendWeatherAlert wenv db u a)) =
          weather_alerts_sent db @
            [\<lparr>a_user_id = u, a_alert_type = al_type a, a_weather_data = al_weatherData a,
              a_sent_at = we_sent_at wenv\<rparr>])"
proof (intro conjI impI)
  assume h: "truthy u \<and> \<not> notifications_disabled env db u \<and> ne_tokens env = Returns
      \<and> user_tokens db u \<noteq> [] \<and> all_rejected env db u n"
  then have "sendNotificationToUser env db u n = deliver env db u n"
    by (simp add: sendNotificationToUser_def)
  with h show "no_result (sendNotificationToUser env db u n) =
        \<lparr>nr_success = True, nr_error = None, nr_skipped = False, nr_limitReached = False,
         nr_sent = Some 0, nr_failed = Some (length (user_tokens db u)),
         nr_total = Some (length (user_tokens db u))\<rparr>"
    by (simp add: deliver_all_rejected)
next
  assume h: "truthy u \<and> \<not> notifications_disabled (we_notify wenv) db u
      \<and> ne_tokens (we_notify wenv) = Returns
      \<and> user_tokens db u \<noteq> [] \<and> all_rejected (we_notify wenv) db u (weather_notification a)
      \<and> canSend (canSendWeatherAlert (we_read wenv) (we_startOfDay wenv) (we_now wenv) db u)
      \<and> we_record wenv = Returns"
  let ?out = "sendNotificationToUser (we_notify wenv) db u (weather_notification a)"
  from h have eq: "?out = deliver (we_notify wenv) db u (weather_notification a)"
    by (simp add: sendNotificationToUser_def)
  with h have ok: "nr_success (no_result ?out)"
    by (simp add: deliver_all_rejected)
  from h ok have sw: "sendWeatherAlert wenv db u a =
      ?out\<lparr>no_store := recordWeatherAlertSent Returns (we_sent_at wenv) (no_store ?out) u
                          (al_type a) (al_weatherData a)\<rparr>"
    by (simp add: sendWeatherAlert_def Let_def)
  show "nr_success (no_result (sendWeatherAlert wenv db u a))"
    using ok by (simp add: sw)
  show "weather_alerts_sent (no_store (sendWeatherAlert wenv db u a)) =
          weather_alerts_sent db @
            [\<lparr>a_user_id = u, a_alert_type = al_type a, a_weather_data = al_weatherData a,
              a_sent_at = we_sent_at wenv\<rparr>]"
    by (simp add: sw recordWeatherAlertSent_def eq deliver_keeps_alerts)
qed

theorem C10_success_when_every_send_fails_witness:
  "truthy (Str ''u1'') \<and> length (user_tokens demo_alerts (Str ''u1'')) = 2
   \<and> all_rejected dead_gateway demo_alerts (Str ''u1'') demo_notification
   \<and> nr_success (no_result (sendNotificationToUser dead_gateway demo_alerts (Str ''u1'')
        demo_notification))
   \<and> nr_sent (no_result (sendNotificationToUser dead_gateway demo_alerts (Str ''u1'')
        demo_notification)) = Some 0
   \<and> nr_failed (no_result (sendNotificationToUser dead_gateway demo_alerts (Str ''u1'')
        demo_notification)) = Some 2
   \<and> nr_success (no_result (sendWeatherAlert demo_weather_env demo_alerts (Str ''u1'') demo_alert))
   \<and> length (weather_alerts_sent
        (no_store (sendWeatherAlert demo_weather_env demo_alerts (Str ''u1'') demo_alert)))
       = length (weather_alerts_sent demo_alerts) + 1"
proof -
  have t: "truthy (Str ''u1'')" by simp
  have w: "we_notify demo_weather_env = dead_gateway" by (simp add: demo_weather_env_def)
  have e: "\<not> notifications_disabled dead_gateway demo_alerts (Str ''u1'')" by code_simp
  have r: "ne_tokens dead_gateway = Returns" by code_simp
  have k: "length (user_tokens demo_alerts (Str ''u1'')) = 2" by code_simp
  then have k': "user_tokens demo_alerts (Str ''u1'') \<noteq> []" by auto
  have a1: "all_rejected dead_gateway demo_alerts (Str ''u1'') demo_notification" by code_simp
  have a2: "all_rejected dead_gateway demo_alerts (Str ''u1'') (weather_notification demo_alert)"
    by code_simp
  have g: "canSend (canSendWeatherAlert (we_read demo_weather_env) (we_startOfDay demo_weather_env)
             (we_now demo_weather_env) demo_alerts (Str ''u1''))" by code_simp
  have i: "we_record demo_weather_env = Returns" by code_simp
  from C10_success_when_every_send_fails
         [of "Str ''u1''" dead_gateway demo_alerts demo_notification demo_weather_env demo_alert]
  show ?thesis using t e r k k' a1 a2 g i by (simp add: w)
qed

end
